theory Spec2Isabelle
  imports Complex_Main "HOL-Library.Log_Nat"
begin

section \<open>Errors\<close>

text \<open>
  Every raise of the Python source is a value. The first group are the exceptions the
  interpreter and the libraries raise on the paths modelled below; the second group is the
  taxonomy of the specification, none of which is raised anywhere in
  \<^verbatim>\<open>helper.py\<close> or \<^verbatim>\<open>training.py\<close>.
\<close>

datatype error =
    ZeroDivisionError
  | OverflowError
  | IndexError
  | ValueError
  | KeyError string
  | NameError string
  | AttributeError string
  | FileNotFoundError string
  | DataError
  | ConfigMismatchError
  | ShapeError
  | ArchitectureMismatchError
  | DivergenceError

section \<open>The configuration object\<close>

text \<open>
  The fields are those written by \<^verbatim>\<open>create_default_config\<close>. Two more are attached
  to the object after construction: \<^verbatim>\<open>cleared_col_names\<close> (assigned by
  \<^verbatim>\<open>process\<close> and \<^verbatim>\<open>compress\<close>) and \<^verbatim>\<open>latent_space_size\<close> (read by
  \<^verbatim>\<open>training.train\<close>, assigned by no function of the two modules); \<open>None\<close> says
  that the attribute is absent. \<^verbatim>\<open>helper.py\<close> reads the object by attribute and
  \<^verbatim>\<open>training.py\<close> by subscript; one record stands for both views.
\<close>

record config =
  input_path :: string
  compression_ratio :: real
  epochs :: int
  early_stopping :: bool
  lr_scheduler :: bool
  patience :: int
  min_delta :: real
  model_name :: string
  custom_norm :: bool
  l1 :: bool
  reg_param :: real
  RHO :: real
  lr :: real
  batch_size :: int
  save_as_root :: bool
  test_size :: real
  cleared_col_names :: "string list option"
  latent_space_size :: "int option"

definition default_config :: config where
  "default_config =
     \<lparr> input_path = ''data/first/george.pickle'',
       compression_ratio = 2,
       epochs = 2,
       early_stopping = True,
       lr_scheduler = False,
       patience = 100,
       min_delta = 0,
       model_name = ''george_SAE'',
       custom_norm = False,
       l1 = True,
       reg_param = 1 / 1000,
       RHO = 5 / 100,
       lr = 1 / 1000,
       batch_size = 512,
       save_as_root = True,
       test_size = 15 / 100,
       cleared_col_names = None,
       latent_space_size = None \<rparr>"

section \<open>Normalisation\<close>

text \<open>
  A data frame is kept as its column names and its list of columns; numbers are reals, so
  rounding is not part of the model. \<^verbatim>\<open>numpy.apply_along_axis\<close> with
  \<^verbatim>\<open>axis=0\<close> hands every column to the function in turn, the first exception ends
  the call, and an array without columns is refused with a \<^verbatim>\<open>ValueError\<close>.
\<close>

type_synonym column = "real list"

record frame =
  col_names :: "string list"
  cols :: "column list"

fun collect :: "(error + 'a) list \<Rightarrow> error + 'a list" where
  "collect [] = Inr []"
| "collect (r # rs) =
     (case r of
        Inl e \<Rightarrow> Inl e
      | Inr v \<Rightarrow> (case collect rs of Inl e \<Rightarrow> Inl e | Inr vs \<Rightarrow> Inr (v # vs)))"

definition apply_along_axis0 ::
  "(column \<Rightarrow> error + column) \<Rightarrow> column list \<Rightarrow> error + column list" where
  "apply_along_axis0 f arr = (if arr = [] then Inl ValueError else collect (map f arr))"

text \<open>
  Modelled from the spec: \<^verbatim>\<open>data_processing.find_minmax\<close> is not among the sources.
  It is the specification's \<^verbatim>\<open>fit\<close>: per column the pair \<open>(true_min, range)\<close> with
  \<open>range = max - min\<close>, and a \<^verbatim>\<open>DataError\<close> for an empty column.
\<close>

definition column_minmax :: "column \<Rightarrow> error + real \<times> real" where
  "column_minmax c =
     (case c of
        [] \<Rightarrow> Inl DataError
      | v # vs \<Rightarrow> Inr (fold min vs v, fold max vs v - fold min vs v))"

definition find_minmax :: "column list \<Rightarrow> error + (real \<times> real) list" where
  "find_minmax df = collect (map column_minmax df)"

text \<open>
  Modelled from the spec: \<^verbatim>\<open>data_processing.normalize\<close> is not among the sources.
  The call in \<^verbatim>\<open>helper.normalize\<close> gives it one column and the configuration and
  nothing else, so the minimum and the range can only be those of the column it receives;
  the scaling is the specification's \<^verbatim>\<open>apply\<close>:
  \<open>(value - true_min) / range\<close> for a positive range, \<open>0\<close> otherwise. With
  \<^verbatim>\<open>custom_norm\<close> set the normalisation is the caller's business and the column is
  left as it is.
\<close>

definition dp_normalize :: "column \<Rightarrow> config \<Rightarrow> error + column" where
  "dp_normalize c cfg =
     (if custom_norm cfg then Inr c
      else
        (case column_minmax c of
           Inl e \<Rightarrow> Inl e
         | Inr (true_min, feature_range) \<Rightarrow>
             Inr (map (\<lambda>v. if 0 < feature_range then (v - true_min) / feature_range else 0) c)))"

text \<open>
  \<^verbatim>\<open>helper.normalize\<close> (lines 118--123). \<^verbatim>\<open>numpy_to_df\<close> wraps the array into
  a frame again and keeps the values.
\<close>

definition normalize_frame :: "column list \<Rightarrow> config \<Rightarrow> error + column list" where
  "normalize_frame data cfg = apply_along_axis0 (\<lambda>c. dp_normalize c cfg) data"



text \<open>
  The specification's \<^verbatim>\<open>apply(dataset, params)\<close> in its own words, for comparison
  with what the code computes: every column is scaled with the parameters stored for it.
\<close>

definition apply_params :: "column list \<Rightarrow> (real \<times> real) list \<Rightarrow> column list" where
  "apply_params d p =
     map (\<lambda>(c, true_min, range). map (\<lambda>v. if 0 < range then (v - true_min) / range else 0) c)
       (zip d p)"


section \<open>Data, model files and architectures seen by \<^verbatim>\<open>helper.py\<close>\<close>

text \<open>
  A stored tensor is a vector or a matrix; Python's \<^verbatim>\<open>len\<close> gives the size of its
  first dimension. A model file is the ordered dictionary that \<^verbatim>\<open>torch.load\<close>
  returns, kept as an association list in insertion order.
\<close>

datatype tensor = Vec "real list" | Mat "real list list"

fun tensor_len :: "tensor \<Rightarrow> nat" where
  "tensor_len (Vec v) = length v"
| "tensor_len (Mat rows) = length rows"

type_synonym state_dict = "(string \<times> tensor) list"

text \<open>
  The specification's Model: an opaque entity whose \<open>n_features\<close> and \<open>z_dim\<close> are
  fixed at construction. An architecture (the class that
  \<^verbatim>\<open>data_processing.initialise_model\<close> selects by \<^verbatim>\<open>model_name\<close>) is given by
  its capabilities: whether stored weights fit the requested sizes, and the two halves of
  the codec.
\<close>

record net_model =
  n_features :: nat
  z_dim :: int
  weights :: state_dict

record arch =
  fits :: "state_dict \<Rightarrow> nat \<Rightarrow> int \<Rightarrow> bool"
  encode :: "net_model \<Rightarrow> column list \<Rightarrow> real list list"
  decode :: "net_model \<Rightarrow> real list list \<Rightarrow> real list list"

text \<open>
  What the functions of \<^verbatim>\<open>helper.py\<close> find outside themselves: the dataset files
  (loaded as frames), the latent files (loaded as arrays, a list of rows), the model
  files, the architectures by name, and the splitting routine
  \<^verbatim>\<open>data_processing.split\<close>.
\<close>

record world =
  datasets :: "string \<rightharpoonup> frame"
  latents :: "string \<rightharpoonup> real list list"
  model_files :: "string \<rightharpoonup> state_dict"
  models :: "string \<rightharpoonup> arch"
  split :: "column list \<Rightarrow> real \<Rightarrow> nat \<Rightarrow> column list \<times> column list"

text \<open>
  Modelled from the spec: \<^verbatim>\<open>data_processing.load_data\<close>,
  \<^verbatim>\<open>data_processing.get_columns\<close>, \<^verbatim>\<open>data_processing.initialise_model\<close> and
  \<^verbatim>\<open>data_processing.load_model\<close> are not among the sources. Loading reads the file
  at the path; the column list is the frame's; the architecture is selected by
  \<^verbatim>\<open>model_name\<close>; and \<^verbatim>\<open>load\<close> builds a model of the requested sizes around
  the stored weights, failing with \<^verbatim>\<open>ArchitectureMismatchError\<close> when the sizes
  cannot be reconciled with the stored shapes. \<^verbatim>\<open>data_loader\<close> is the wrapper of
  \<^verbatim>\<open>helper.py\<close> (lines 107--108); \<open>data_loader_latent\<close> is the same call on a
  latent file.
\<close>

definition data_loader :: "world \<Rightarrow> string \<Rightarrow> config \<Rightarrow> error + frame" where
  "data_loader w data_path cfg =
     (case datasets w data_path of
        None \<Rightarrow> Inl (FileNotFoundError data_path)
      | Some df \<Rightarrow> Inr df)"

definition data_loader_latent :: "world \<Rightarrow> string \<Rightarrow> config \<Rightarrow> error + real list list" where
  "data_loader_latent w data_path cfg =
     (case latents w data_path of
        None \<Rightarrow> Inl (FileNotFoundError data_path)
      | Some a \<Rightarrow> Inr a)"

definition get_columns :: "frame \<Rightarrow> string list" where
  "get_columns df = col_names df"

definition initialise_model :: "world \<Rightarrow> config \<Rightarrow> error + arch" where
  "initialise_model w cfg =
     (case models w (model_name cfg) of
        None \<Rightarrow> Inl (AttributeError (model_name cfg))
      | Some a \<Rightarrow> Inr a)"

definition torch_load :: "world \<Rightarrow> string \<Rightarrow> error + state_dict" where
  "torch_load w model_path =
     (case model_files w model_path of
        None \<Rightarrow> Inl (FileNotFoundError model_path)
      | Some sd \<Rightarrow> Inr sd)"

definition load_model :: "world \<Rightarrow> arch \<Rightarrow> string \<Rightarrow> nat \<Rightarrow> int \<Rightarrow> error + net_model" where
  "load_model w ModelObject model_path n z =
     (case torch_load w model_path of
        Inl e \<Rightarrow> Inl e
      | Inr sd \<Rightarrow>
          if fits ModelObject sd n z
          then Inr \<lparr> n_features = n, z_dim = z, weights = sd \<rparr>
          else Inl ArchitectureMismatchError)"

section \<open>Floats\<close>

text \<open>
  A Python float is a finite number, one of the two infinities or not-a-number. The
  losses of the training loop (\<^verbatim>\<open>loss.item()\<close>) are added exactly, without rounding
  and without overflow of finite sums, the non-finite values following the IEEE rules.
  The floor division that sizes the model is done in double precision, with its rounding
  and its overflow (further below).
\<close>

datatype fval = Fin real | PInf | NInf | NaN

fun is_finite :: "fval \<Rightarrow> bool" where
  "is_finite (Fin _) = True"
| "is_finite _ = False"

fun fadd :: "fval \<Rightarrow> fval \<Rightarrow> fval" where
  "fadd (Fin a) (Fin b) = Fin (a + b)"
| "fadd NaN _ = NaN"
| "fadd _ NaN = NaN"
| "fadd PInf NInf = NaN"
| "fadd NInf PInf = NaN"
| "fadd PInf _ = PInf"
| "fadd _ PInf = PInf"
| "fadd NInf _ = NInf"
| "fadd _ NInf = NInf"

fun fneg :: "fval \<Rightarrow> fval" where
  "fneg (Fin a) = Fin (- a)"
| "fneg PInf = NInf"
| "fneg NInf = PInf"
| "fneg NaN = NaN"

definition fsub :: "fval \<Rightarrow> fval \<Rightarrow> fval" where
  "fsub a b = fadd a (fneg b)"

fun fgt :: "fval \<Rightarrow> fval \<Rightarrow> bool" where
  "fgt (Fin a) (Fin b) = (b < a)"
| "fgt NaN _ = False"
| "fgt _ NaN = False"
| "fgt PInf PInf = False"
| "fgt PInf _ = True"
| "fgt _ PInf = False"
| "fgt NInf _ = False"
| "fgt _ NInf = True"

text \<open>
  \<^verbatim>\<open>running_loss / len(dl)\<close>: a float divided by an integer; Python raises
  \<^verbatim>\<open>ZeroDivisionError\<close> for the divisor zero.
\<close>

definition fdiv_count :: "fval \<Rightarrow> nat \<Rightarrow> error + fval" where
  "fdiv_count x n =
     (if n = 0 then Inl ZeroDivisionError
      else Inr (case x of Fin a \<Rightarrow> Fin (a / real n) | _ \<Rightarrow> x))"

subsection \<open>Double precision\<close>

text \<open>
  Rounding of a real to the nearest double, ties to even: 53 significant bits, the
  smallest exponent \<open>-1022\<close> (below it the spacing stays \<open>2 powr (-1074)\<close>), and
  infinity once the rounded magnitude reaches \<open>2 ^ 1024\<close>. The sign of zero is not
  kept.
\<close>

text \<open>
  The binary exponent of a real: the integer \<open>e\<close> with \<open>2 ^ e \<le> \<bar>x\<bar> < 2 ^ (e + 1)\<close>,
  computed from the bit length of the integer part (or, below one, of the reciprocal), so
  that it evaluates on rationals. \<open>ulp x\<close> is the spacing of the doubles around \<open>x\<close>.
\<close>

definition exponent :: "real \<Rightarrow> int" where
  "exponent x =
     (if 1 \<le> \<bar>x\<bar> then int (floorlog 2 (nat \<lfloor>\<bar>x\<bar>\<rfloor>)) - 1
      else - int (floorlog 2 (nat (\<lceil>1 / \<bar>x\<bar>\<rceil> - 1))))"

definition ulp :: "real \<Rightarrow> real" where
  "ulp x = 2 powi (max (exponent x) (- 1022) - 52)"

definition round_half_even :: "real \<Rightarrow> int" where
  "round_half_even y =
     (let f = \<lfloor>y\<rfloor>
      in if y - of_int f < 1 / 2 then f
         else if 1 / 2 < y - of_int f then f + 1
         else if even f then f else f + 1)"

definition round_double :: "real \<Rightarrow> fval" where
  "round_double x =
     (if x = 0 then Fin 0
      else
        let y = of_int (round_half_even (x / ulp x)) * ulp x
        in if 2 ^ 1024 \<le> \<bar>y\<bar> then (if 0 < x then PInf else NInf) else Fin y)"

text \<open>
  The operations of the hardware: the exact result, rounded. The divisor of
  \<open>double_div\<close> is a finite number other than zero; \<^verbatim>\<open>floor\<close> and
  \<^verbatim>\<open>fmod\<close> are exact.
\<close>

fun rounded :: "fval \<Rightarrow> fval" where
  "rounded (Fin a) = round_double a"
| "rounded v = v"

definition double_add :: "fval \<Rightarrow> fval \<Rightarrow> fval" where
  "double_add a b = rounded (fadd a b)"

definition double_sub :: "fval \<Rightarrow> fval \<Rightarrow> fval" where
  "double_sub a b = rounded (fsub a b)"

fun double_div :: "fval \<Rightarrow> real \<Rightarrow> fval" where
  "double_div (Fin a) w = round_double (a / w)"
| "double_div PInf w = (if 0 < w then PInf else NInf)"
| "double_div NInf w = (if 0 < w then NInf else PInf)"
| "double_div NaN w = NaN"

fun double_floor :: "fval \<Rightarrow> fval" where
  "double_floor (Fin a) = Fin (of_int \<lfloor>a\<rfloor>)"
| "double_floor v = v"

definition to_zero :: "real \<Rightarrow> int" where
  "to_zero x = (if 0 \<le> x then \<lfloor>x\<rfloor> else \<lceil>x\<rceil>)"

definition c_fmod :: "real \<Rightarrow> real \<Rightarrow> real" where
  "c_fmod x y = x - y * of_int (to_zero (x / y))"

text \<open>
  Python's \<^verbatim>\<open>//\<close> on floats, as the interpreter computes it: the remainder by
  \<^verbatim>\<open>fmod\<close>, the quotient \<^verbatim>\<open>(vx - mod) / wx\<close>, one less when the remainder and
  the divisor differ in sign, then snapped to the nearest integral value. A zero divisor
  raises.
\<close>

definition float_floor_div :: "real \<Rightarrow> real \<Rightarrow> error + fval" where
  "float_floor_div vx wx =
     (if wx = 0 then Inl ZeroDivisionError
      else
        let rem = c_fmod vx wx;
            quot0 = double_div (round_double (vx - rem)) wx;
            quot = (if rem \<noteq> 0 \<and> (wx < 0) \<noteq> (rem < 0)
                    then double_sub quot0 (Fin 1) else quot0)
        in Inr (if quot \<noteq> Fin 0
                then (let floordiv = double_floor quot
                      in if fgt (double_sub quot floordiv) (Fin (1 / 2))
                         then double_add floordiv (Fin 1)
                         else floordiv)
                else Fin 0))"

text \<open>
  The conversion of a Python integer to a float, which raises when the integer is beyond
  the doubles, and \<^verbatim>\<open>int\<close> of a float, which truncates towards zero and raises on an
  infinity and on not-a-number.
\<close>

definition int_to_double :: "int \<Rightarrow> error + real" where
  "int_to_double k =
     (case round_double (of_int k) of Fin v \<Rightarrow> Inr v | _ \<Rightarrow> Inl OverflowError)"

fun py_int :: "fval \<Rightarrow> error + int" where
  "py_int (Fin a) = Inr (to_zero a)"
| "py_int NaN = Inl ValueError"
| "py_int _ = Inl OverflowError"

text \<open>
  Line 170 of \<^verbatim>\<open>helper.py\<close>:
  \<^verbatim>\<open>int(number_of_columns // config.compression_ratio)\<close>, the number of columns an
  integer and the compression ratio a float, as in the default configuration.
\<close>

definition latent_size :: "nat \<Rightarrow> real \<Rightarrow> error + int" where
  "latent_size number_of_columns ratio =
     (case int_to_double (int number_of_columns) of
        Inl e \<Rightarrow> Inl e
      | Inr vx \<Rightarrow>
          (case float_floor_div vx ratio of
             Inl e \<Rightarrow> Inl e
           | Inr q \<Rightarrow> py_int q))"

section \<open>\<^verbatim>\<open>helper.process\<close>, \<^verbatim>\<open>helper.compress\<close>, \<^verbatim>\<open>helper.decompress\<close>\<close>

text \<open>
  A primed name is a local variable or parameter of the source whose name is also a
  field of the configuration. The configuration object is shared with the caller and
  assigned to in place, so every operation returns it next to its outcome; an assignment
  made before an exception stays.

  \<^verbatim>\<open>process\<close> (lines 126--136).
\<close>

definition process ::
  "world \<Rightarrow> string \<Rightarrow> config \<Rightarrow>
   (error + column list \<times> column list \<times> nat \<times> (real \<times> real) list) \<times> config" where
  "process w data_path cfg =
     (case data_loader w data_path cfg of
        Inl e \<Rightarrow> (Inl e, cfg)
      | Inr df \<Rightarrow>
          let cfg1 = cfg\<lparr>cleared_col_names := Some (get_columns df)\<rparr> in
          (case find_minmax (cols df) of
             Inl e \<Rightarrow> (Inl e, cfg1)
           | Inr normalization_features \<Rightarrow>
               let cfg2 = cfg1\<lparr>cleared_col_names := Some (get_columns df)\<rparr>;
                   number_of_columns = length (get_columns df)
               in
               (case normalize_frame (cols df) cfg2 of
                  Inl e \<Rightarrow> (Inl e, cfg2)
                | Inr ndf \<Rightarrow>
                    let (train_set, test_set) = split w ndf (test_size cfg2) 1
                    in (Inr (train_set, test_set, number_of_columns, normalization_features),
                        cfg2))))"

text \<open>
  \<^verbatim>\<open>compress\<close> (lines 165--185). The function has no parameter through which stored
  normalisation parameters could arrive: it normalises the data it has just loaded.
\<close>

definition compress ::
  "world \<Rightarrow> string \<Rightarrow> string \<Rightarrow> config \<Rightarrow>
   (error + real list list \<times> column list) \<times> config" where
  "compress w model_path input_path' cfg =
     (case data_loader w input_path' cfg of
        Inl e \<Rightarrow> (Inl e, cfg)
      | Inr data \<Rightarrow>
          let cfg1 = cfg\<lparr>cleared_col_names := Some (get_columns data)\<rparr>;
              number_of_columns = length (get_columns data)
          in
          (case latent_size number_of_columns (compression_ratio cfg1) of
             Inl e \<Rightarrow> (Inl e, cfg1)
           | Inr latent_space_size' \<Rightarrow>
               let data_before = cols data in
               (case normalize_frame (cols data) cfg1 of
                  Inl e \<Rightarrow> (Inl e, cfg1)
                | Inr ndata \<Rightarrow>
                    (case initialise_model w cfg1 of
                       Inl e \<Rightarrow> (Inl e, cfg1)
                     | Inr ModelObject \<Rightarrow>
                         (case load_model w ModelObject model_path number_of_columns latent_space_size' of
                            Inl e \<Rightarrow> (Inl e, cfg1)
                          | Inr model \<Rightarrow>
                              (Inr (encode ModelObject model ndata, data_before), cfg1))))))"

text \<open>
  \<^verbatim>\<open>decompress\<close> (lines 188--207). \<^verbatim>\<open>data[0]\<close> on an array without rows and
  \<^verbatim>\<open>list(modelDict.keys())[-1]\<close> on an empty dictionary raise
  \<^verbatim>\<open>IndexError\<close>.
\<close>

definition decompress ::
  "world \<Rightarrow> string \<Rightarrow> string \<Rightarrow> config \<Rightarrow> (error + real list list) \<times> config" where
  "decompress w model_path input_path' cfg =
     (case data_loader_latent w input_path' cfg of
        Inl e \<Rightarrow> (Inl e, cfg)
      | Inr data \<Rightarrow>
          (case data of
             [] \<Rightarrow> (Inl IndexError, cfg)
           | row0 # _ \<Rightarrow>
               let latent_space_size' = int (length row0) in
               (case torch_load w model_path of
                  Inl e \<Rightarrow> (Inl e, cfg)
                | Inr modelDict \<Rightarrow>
                    if modelDict = [] then (Inl IndexError, cfg)
                    else
                      let number_of_columns = tensor_len (snd (last modelDict)) in
                      (case initialise_model w cfg of
                         Inl e \<Rightarrow> (Inl e, cfg)
                       | Inr ModelObject \<Rightarrow>
                           (case load_model w ModelObject model_path number_of_columns latent_space_size' of
                              Inl e \<Rightarrow> (Inl e, cfg)
                            | Inr model \<Rightarrow> (Inr (decode ModelObject model data), cfg))))))"

text \<open>
  The specification's latent width in its own words. The sizing of the model at
  derive-time is done by the entry script, which is not among the sources; this definition
  stands for it.
\<close>

definition latent_width :: "nat \<Rightarrow> real \<Rightarrow> int" where
  "latent_width n r = \<lfloor>real n / r\<rfloor>"

section \<open>A small concrete world\<close>

text \<open>
  An architecture with one encoder matrix and one decoder bias: the stored weights fit
  when the encoder matrix has \<open>z_dim\<close> rows and the decoder bias \<open>n_features\<close> entries.
  Encoding keeps the first \<open>z_dim\<close> columns, decoding pads or cuts every row to
  \<open>n_features\<close> values.
\<close>

definition demo_arch :: arch where
  "demo_arch =
     \<lparr> fits = (\<lambda>sd n z.
         (case sd of
            [] \<Rightarrow> False
          | (_, t) # _ \<Rightarrow> int (tensor_len t) = z \<and> tensor_len (snd (last sd)) = n)),
       encode = (\<lambda>m d. take (nat (z_dim m)) d),
       decode = (\<lambda>m rows. map (\<lambda>r. take (n_features m) (r @ replicate (n_features m) 0)) rows) \<rparr>"

definition derive_frame :: frame where
  "derive_frame = \<lparr> col_names = [''pt'', ''eta''], cols = [[0, 10], [1, 3]] \<rparr>"

definition big_frame :: frame where
  "big_frame = \<lparr> col_names = [''pt'', ''eta''], cols = [[0, 5], [1, 2]] \<rparr>"

definition demo_weights :: state_dict where
  "demo_weights = [(''en1.weight'', Mat [[1, 0]]), (''de1.bias'', Vec [0, 0])]"

definition demo_world :: world where
  "demo_world =
     \<lparr> datasets = [''derive.pickle'' \<mapsto> derive_frame, ''big.pickle'' \<mapsto> big_frame],
       latents = [''compressed.pickle'' \<mapsto> [[1 / 2], [1]], ''wide.pickle'' \<mapsto> [[1, 2, 3]]],
       model_files = [''model.pt'' \<mapsto> demo_weights],
       models = [''george_SAE'' \<mapsto> demo_arch],
       split = (\<lambda>d ts seed. (d, [])) \<rparr>"

section \<open>The collaborators of the training loop\<close>

text \<open>
  The network, the optimiser and the two policy classes of \<^verbatim>\<open>modules.utils\<close> are
  outside the two source files; the loop is written against what it calls on them.
  \<open>'p\<close> are the model's parameters, \<open>'o\<close> the optimiser's state, \<open>'b\<close> a batch (a
  tensor), \<open>'e\<close> and \<open>'l\<close> the states of the \<^verbatim>\<open>EarlyStopping\<close> and
  \<^verbatim>\<open>LRScheduler\<close> objects.
  \<^item> \<open>forward p mode x\<close> is \<^verbatim>\<open>model(x)\<close>, \<open>mode\<close> being the training flag that
    \<^verbatim>\<open>model.train()\<close> and \<^verbatim>\<open>model.eval()\<close> set;
  \<^item> \<open>loss p x y reg\<close> is \<^verbatim>\<open>model.loss(model_children, x, y, reg)\<close> as a float; the
    children are the model's own layers and share its parameters;
  \<^item> \<open>descend o p x reg\<close> is \<^verbatim>\<open>zero_grad\<close>, \<^verbatim>\<open>loss.backward()\<close> and
    \<^verbatim>\<open>optimizer.step()\<close> for the batch \<open>x\<close>;
  \<^item> \<open>adam p lr\<close> is \<^verbatim>\<open>torch.optim.Adam(model.parameters(), lr=lr)\<close>;
  \<^item> \<open>stop_new\<close>, \<open>stop_call\<close>, \<open>stop_flag\<close> are the constructor, the call and the
    attribute \<^verbatim>\<open>early_stop\<close> of \<^verbatim>\<open>EarlyStopping\<close>;
  \<^item> \<open>sched_new\<close>, \<open>sched_call\<close> are the constructor and the call of
    \<^verbatim>\<open>LRScheduler\<close>, which acts on the optimiser it was given.
\<close>

record ('p, 'o, 'b, 'e, 'l) torch =
  forward :: "'p \<Rightarrow> bool \<Rightarrow> 'b \<Rightarrow> 'b"
  loss :: "'p \<Rightarrow> 'b \<Rightarrow> 'b \<Rightarrow> real \<Rightarrow> fval"
  descend :: "'o \<Rightarrow> 'p \<Rightarrow> 'b \<Rightarrow> real \<Rightarrow> 'o \<times> 'p"
  adam :: "'p \<Rightarrow> real \<Rightarrow> 'o"
  stop_new :: "int \<Rightarrow> real \<Rightarrow> 'e"
  stop_call :: "'e \<Rightarrow> fval \<Rightarrow> 'e"
  stop_flag :: "'e \<Rightarrow> bool"
  sched_new :: "'o \<Rightarrow> int \<Rightarrow> 'l"
  sched_call :: "'l \<Rightarrow> 'o \<Rightarrow> fval \<Rightarrow> 'l \<times> 'o"

text \<open>The model object: its parameters and its training flag.\<close>

record 'p module =
  params :: 'p
  training :: bool

section \<open>\<^verbatim>\<open>training.fit\<close> and \<^verbatim>\<open>training.validate\<close>\<close>

text \<open>
  The loop of \<^verbatim>\<open>fit\<close> (lines 18--33) over the batches the loader yields. The model
  and the optimiser are updated in place, so they are returned with the running loss.
  The labels, \<^verbatim>\<open>RHO\<close> and \<^verbatim>\<open>l1\<close> are not used by the source, and
  \<^verbatim>\<open>n_data\<close> only feeds the progress bar.
\<close>

fun fit_batches ::
  "('p, 'o, 'b, 'e, 'l) torch \<Rightarrow> real \<Rightarrow> 'b list \<Rightarrow> 'p module \<Rightarrow> 'o \<Rightarrow> fval \<Rightarrow>
   'p module \<times> 'o \<times> fval" where
  "fit_batches T regular_param [] model optimizer running_loss =
     (model, optimizer, running_loss)"
| "fit_batches T regular_param (inputs # rest) model optimizer running_loss =
     (let reconstructions = forward T (params model) (training model) inputs;
          l = loss T (params model) inputs reconstructions regular_param;
          (optimizer1, params1) = descend T optimizer (params model) inputs regular_param
      in fit_batches T regular_param rest (model\<lparr>params := params1\<rparr>) optimizer1
           (fadd running_loss l))"

text \<open>\<^verbatim>\<open>fit\<close> (lines 10--38): the epoch loss or the exception, the model, the optimiser.\<close>

definition fit ::
  "('p, 'o, 'b, 'e, 'l) torch \<Rightarrow> 'p module \<Rightarrow> 'b list \<Rightarrow> real \<Rightarrow> 'o \<Rightarrow>
   (error + fval) \<times> 'p module \<times> 'o" where
  "fit T model train_dl regular_param optimizer =
     (let (model1, optimizer1, running_loss) =
            fit_batches T regular_param train_dl (model\<lparr>training := True\<rparr>) optimizer (Fin 0)
      in (fdiv_count running_loss (length train_dl), model1, optimizer1))"

text \<open>
  The loop of \<^verbatim>\<open>validate\<close> (lines 50--57): the same two calls, no backward pass and no
  optimiser step.
\<close>

fun validate_batches ::
  "('p, 'o, 'b, 'e, 'l) torch \<Rightarrow> real \<Rightarrow> 'b list \<Rightarrow> 'p module \<Rightarrow> fval \<Rightarrow> fval" where
  "validate_batches T reg_param' [] model running_loss = running_loss"
| "validate_batches T reg_param' (inputs # rest) model running_loss =
     (let reconstructions = forward T (params model) (training model) inputs;
          l = loss T (params model) inputs reconstructions reg_param'
      in validate_batches T reg_param' rest model (fadd running_loss l))"

text \<open>\<^verbatim>\<open>validate\<close> (lines 41--62): the epoch loss or the exception, and the model.\<close>

definition validate ::
  "('p, 'o, 'b, 'e, 'l) torch \<Rightarrow> 'p module \<Rightarrow> 'b list \<Rightarrow> real \<Rightarrow>
   (error + fval) \<times> 'p module" where
  "validate T model test_dl reg_param' =
     (let model1 = model\<lparr>training := False\<rparr>;
          running_loss = validate_batches T reg_param' test_dl model1 (Fin 0)
      in (fdiv_count running_loss (length test_dl), model1))"

section \<open>\<^verbatim>\<open>training.train\<close>\<close>

text \<open>
  The variables of \<^verbatim>\<open>train\<close> that change from epoch to epoch. The two policy
  objects are created only when the configuration enables them, and used only then; the
  state keeps both. \<^verbatim>\<open>train_acc\<close> and \<^verbatim>\<open>val_acc\<close> stay empty and are left out.
\<close>

record ('p, 'o, 'e, 'l, 'v) loop_state =
  model :: "'p module"
  optimizer :: 'o
  early_stopping' :: 'e
  lr_scheduler' :: 'l
  train_loss :: "fval list"
  val_loss :: "fval list"
  mse_loss_fit :: "'v list"
  regularizer_loss_fit :: "'v list"

text \<open>
  \<^verbatim>\<open>mse_loss_fit1\<close>, \<^verbatim>\<open>regularizer_loss_fit1\<close> and \<^verbatim>\<open>model_from_fit\<close> are
  free in \<^verbatim>\<open>train\<close>: the function never assigns them, so Python looks them up in the
  namespace of the module each time the statement runs and raises \<^verbatim>\<open>NameError\<close>
  when the name is not bound. The namespace is an input of the model.
  \<open>training_globals\<close> is the namespace that \<^verbatim>\<open>training.py\<close> itself creates: its
  imports and its three functions, none of the three names.
\<close>

record ('v, 'w) namespace =
  mse_loss_fit1 :: "'v option"
  regularizer_loss_fit1 :: "'v option"
  model_from_fit :: "'w option"

definition training_globals :: "('v, 'w) namespace" where
  "training_globals =
     \<lparr> mse_loss_fit1 = None, regularizer_loss_fit1 = None, model_from_fit = None \<rparr>"

text \<open>
  The body of the epoch loop (lines 114--140). The result is the state after the body and
  whether the body left the loop with \<^verbatim>\<open>break\<close>.
\<close>

definition epoch_body ::
  "('p, 'o, 'b, 'e, 'l) torch \<Rightarrow> ('v, 'w) namespace \<Rightarrow> config \<Rightarrow> 'b list \<Rightarrow> 'b list \<Rightarrow>
   ('p, 'o, 'e, 'l, 'v) loop_state \<Rightarrow> error + ('p, 'o, 'e, 'l, 'v) loop_state \<times> bool" where
  "epoch_body T g cfg train_dl valid_dl s =
     (case fit T (model s) train_dl (reg_param cfg) (optimizer s) of
        (Inl e, _, _) \<Rightarrow> Inl e
      | (Inr train_epoch_loss, model1, optimizer1) \<Rightarrow>
          let s1 = s\<lparr>model := model1, optimizer := optimizer1,
                     train_loss := train_loss s @ [train_epoch_loss]\<rparr>
          in
          (case validate T (model s1) valid_dl (reg_param cfg) of
             (Inl e, _) \<Rightarrow> Inl e
           | (Inr val_epoch_loss, model2) \<Rightarrow>
               let s2 = s1\<lparr>model := model2, val_loss := val_loss s1 @ [val_epoch_loss]\<rparr> in
               (case mse_loss_fit1 g of
                  None \<Rightarrow> Inl (NameError ''mse_loss_fit1'')
                | Some m \<Rightarrow>
                    (case regularizer_loss_fit1 g of
                       None \<Rightarrow> Inl (NameError ''regularizer_loss_fit1'')
                     | Some r \<Rightarrow>
                         let s3 = s2\<lparr>mse_loss_fit := mse_loss_fit s2 @ [m],
                                      regularizer_loss_fit := regularizer_loss_fit s2 @ [r]\<rparr>;
                             s4 = (if lr_scheduler cfg
                                   then (let (l, opt) = sched_call T (lr_scheduler' s3)
                                                          (optimizer s3) val_epoch_loss
                                         in s3\<lparr>lr_scheduler' := l, optimizer := opt\<rparr>)
                                   else s3)
                         in
                         if early_stopping cfg
                         then (let e = stop_call T (early_stopping' s4) val_epoch_loss;
                                   s5 = s4\<lparr>early_stopping' := e\<rparr>
                               in Inr (s5, stop_flag T e))
                         else Inr (s4, False)))))"

text \<open>
  \<^verbatim>\<open>for epoch in range(epochs)\<close> (line 113). The training loader shuffles, so the
  batches it yields depend on the epoch.
\<close>

fun train_loop ::
  "('p, 'o, 'b, 'e, 'l) torch \<Rightarrow> ('v, 'w) namespace \<Rightarrow> config \<Rightarrow> (nat \<Rightarrow> 'b list) \<Rightarrow> 'b list \<Rightarrow>
   nat list \<Rightarrow> ('p, 'o, 'e, 'l, 'v) loop_state \<Rightarrow> error + ('p, 'o, 'e, 'l, 'v) loop_state" where
  "train_loop T g cfg train_dl valid_dl [] s = Inr s"
| "train_loop T g cfg train_dl valid_dl (epoch # rest) s =
     (case epoch_body T g cfg (train_dl epoch) valid_dl s of
        Inl e \<Rightarrow> Inl e
      | Inr (s1, stop) \<Rightarrow> if stop then Inr s1 else train_loop T g cfg train_dl valid_dl rest s1)"

text \<open>
  What a call of \<^verbatim>\<open>train\<close> leaves behind: the four columns written to
  \<^verbatim>\<open>loss_data.csv\<close> (if that line was reached), and the value returned or the exception
  raised.
\<close>

record ('b, 'v, 'w) outcome =
  written :: "(fval list \<times> fval list \<times> 'v list \<times> 'v list) option"
  returned :: "error + 'b \<times> 'b \<times> 'w"

text \<open>
  \<^verbatim>\<open>train\<close> (lines 65--159). The data sets enter as the loaders built from them and as
  the tensor of the whole test set. \<^verbatim>\<open>config['latent_space_size']\<close> is read (and not
  used); the key is not among those of the default configuration.
\<close>

definition train ::
  "('p, 'o, 'b, 'e, 'l) torch \<Rightarrow> ('v, 'w) namespace \<Rightarrow> 'p module \<Rightarrow> (nat \<Rightarrow> 'b list) \<Rightarrow> 'b list \<Rightarrow>
   'b \<Rightarrow> config \<Rightarrow> ('b, 'v, 'w) outcome" where
  "train T g model0 train_dl valid_dl data_as_tensor cfg =
     (case latent_space_size cfg of
        None \<Rightarrow> \<lparr> written = None, returned = Inl (KeyError ''latent_space_size'') \<rparr>
      | Some latent \<Rightarrow>
          let optimizer0 = adam T (params model0) (lr cfg);
              s0 = \<lparr> model = model0, optimizer = optimizer0,
                     early_stopping' = stop_new T (patience cfg) (min_delta cfg),
                     lr_scheduler' = sched_new T optimizer0 (patience cfg),
                     train_loss = [], val_loss = [], mse_loss_fit = [],
                     regularizer_loss_fit = [] \<rparr>
          in
          (case train_loop T g cfg train_dl valid_dl [0..<nat (epochs cfg)] s0 of
             Inl e \<Rightarrow> \<lparr> written = None, returned = Inl e \<rparr>
           | Inr s \<Rightarrow>
               \<lparr> written = Some (train_loss s, val_loss s, mse_loss_fit s, regularizer_loss_fit s),
                 returned =
                   (let pred_as_tensor =
                          forward T (params (model s)) (training (model s)) data_as_tensor
                    in case model_from_fit g of
                         None \<Rightarrow> Inl (NameError ''model_from_fit'')
                       | Some m \<Rightarrow> Inr (data_as_tensor, pred_as_tensor, m)) \<rparr>))"

text \<open>
  \<^verbatim>\<open>helper.train\<close> (lines 143--146) hands its arguments on; the configuration object
  comes back as it went in.
\<close>

definition helper_train ::
  "('p, 'o, 'b, 'e, 'l) torch \<Rightarrow> ('v, 'w) namespace \<Rightarrow> 'p module \<Rightarrow> (nat \<Rightarrow> 'b list) \<Rightarrow> 'b list \<Rightarrow>
   'b \<Rightarrow> config \<Rightarrow> ('b, 'v, 'w) outcome \<times> config" where
  "helper_train T g model0 train_dl valid_dl data_as_tensor cfg =
     (train T g model0 train_dl valid_dl data_as_tensor cfg, cfg)"

section \<open>A small concrete network and stopping policy\<close>

text \<open>
  Modelled from the spec: \<^verbatim>\<open>utils.EarlyStopping\<close> is not among the sources. The
  state starts with \<open>best_loss = +infinity\<close> and \<open>counter = 0\<close>; an observation that
  improves on the best loss by more than \<open>min_delta\<close> becomes the best loss and resets
  the counter, any other one increments the counter and signals stop once it reaches the
  patience; after that there are no further transitions.
\<close>

record stopper =
  stopper_patience :: int
  stopper_min_delta :: real
  best_loss :: fval
  counter :: int
  early_stop :: bool

definition stopper_new :: "int \<Rightarrow> real \<Rightarrow> stopper" where
  "stopper_new p d =
     \<lparr> stopper_patience = p, stopper_min_delta = d, best_loss = PInf, counter = 0,
       early_stop = False \<rparr>"

definition stopper_call :: "stopper \<Rightarrow> fval \<Rightarrow> stopper" where
  "stopper_call st v =
     (if early_stop st then st
      else if fgt (fsub (best_loss st) v) (Fin (stopper_min_delta st))
      then st\<lparr>best_loss := v, counter := 0\<rparr>
      else st\<lparr>counter := counter st + 1,
              early_stop := (stopper_patience st \<le> counter st + 1)\<rparr>)"

text \<open>
  A network with one weight \<open>p\<close> that reconstructs \<open>x\<close> as \<open>p * x\<close>. Its loss is the
  squared error plus the weighted size of \<open>p\<close>, and overflows to infinity beyond
  \<open>1000\<close>; the optimiser is plain gradient descent and its state is the learning rate;
  the scheduler counts its calls and halves the rate.
\<close>

definition demo_torch :: "(real, real, real, stopper, nat) torch" where
  "demo_torch =
     \<lparr> forward = (\<lambda>p mode x. p * x),
       loss = (\<lambda>p x y reg.
         if 1000 < (x - y) * (x - y) + reg * \<bar>p\<bar> then PInf
         else Fin ((x - y) * (x - y) + reg * \<bar>p\<bar>)),
       descend = (\<lambda>rate p x reg. (rate, p - rate * ((p * x - x) * x))),
       adam = (\<lambda>p rate. rate),
       stop_new = stopper_new,
       stop_call = stopper_call,
       stop_flag = early_stop,
       sched_new = (\<lambda>rate p. 0),
       sched_call = (\<lambda>n rate v. (Suc n, rate / 2)) \<rparr>"

text \<open>A namespace in which the three free names of \<^verbatim>\<open>train\<close> are bound.\<close>

definition bound_globals :: "(fval, real module) namespace" where
  "bound_globals =
     \<lparr> mse_loss_fit1 = Some (Fin 0), regularizer_loss_fit1 = Some (Fin 0),
       model_from_fit = Some \<lparr> params = 1, training = True \<rparr> \<rparr>"

text \<open>
  A configuration for three epochs with a patience of one and a learning rate of zero,
  so that the validation loss cannot improve after the first epoch.
\<close>

definition stalled_config :: config where
  "stalled_config =
     default_config\<lparr> epochs := 3, patience := 1, lr := 0, reg_param := 0,
                     latent_space_size := Some 1 \<rparr>"

text \<open>The default configuration with a compression ratio of \<open>2 powr (-1070)\<close>.\<close>

definition tiny_ratio_config :: config where
  "tiny_ratio_config = default_config\<lparr> compression_ratio := 1 / 2 ^ 1070 \<rparr>"


section \<open>Normalisation: fitting, scaling and the way back\<close>

text \<open>
  \<open>collect\<close> succeeds exactly when every element does, and then keeps the order.
\<close>

lemma collect_map_Inr:
  "collect (map f xs) = Inr ys \<longleftrightarrow> length ys = length xs \<and> (\<forall>i<length xs. f (xs ! i) = Inr (ys ! i))"
proof (induction xs arbitrary: ys)
  case Nil
  then show ?case by auto
next
  case (Cons x xs)
  show ?case
  proof (cases ys)
    case Nil
    then show ?thesis by (auto split: sum.splits)
  next
    case (Cons y ys')
    have "(\<forall>i<Suc (length xs). f ((x # xs) ! i) = Inr ((y # ys') ! i)) \<longleftrightarrow>
          f x = Inr y \<and> (\<forall>i<length xs. f (xs ! i) = Inr (ys' ! i))"
      by (auto simp: nth_Cons split: nat.splits)
    with Cons.IH[of ys'] Cons show ?thesis
      by (auto split: sum.splits)
  qed
qed









section \<open>Floor division in double precision\<close>

lemma exponent_log_nz:
  assumes "x \<noteq> 0"
  shows "exponent x = \<lfloor>log 2 \<bar>x\<bar>\<rfloor>"
proof (cases "1 \<le> \<bar>x\<bar>")
  case True
  define m where "m = nat \<lfloor>\<bar>x\<bar>\<rfloor>"
  have m1: "1 \<le> m" using True by (simp add: m_def le_nat_iff le_floor_iff)
  have mx: "real m \<le> \<bar>x\<bar>" "\<bar>x\<bar> < real m + 1" unfolding m_def by linarith+
  have e: "exponent x = int (floorlog 2 m) - 1" using True by (simp add: exponent_def m_def)
  from floorlog_bounds[of m 2] m1
  have b: "2 ^ (floorlog 2 m - 1) \<le> m" "m < 2 ^ floorlog 2 m" by simp_all
  have f1: "1 \<le> floorlog 2 m" using m1 by (simp add: floorlog_def)
  define k where "k = floorlog 2 m - 1"
  have fk: "floorlog 2 m = Suc k" using f1 by (simp add: k_def)
  have lo: "2 ^ k \<le> \<bar>x\<bar>"
  proof -
    have "real (2 ^ k) \<le> real m" using b(1) unfolding k_def by (simp only: of_nat_le_iff)
    then have "(2::real) ^ k \<le> real m" by simp
    with mx show ?thesis by linarith
  qed
  have hi: "\<bar>x\<bar> < 2 ^ Suc k"
  proof -
    from b(2) have "m + 1 \<le> 2 ^ Suc k" unfolding fk by simp
    then have "real (m + 1) \<le> real (2 ^ Suc k)" by (simp only: of_nat_le_iff)
    then have "real m + 1 \<le> 2 ^ Suc k" by simp
    with mx show ?thesis by linarith
  qed
  have "\<lfloor>log 2 \<bar>x\<bar>\<rfloor> = int k"
  proof -
    have "0 < \<bar>x\<bar>" using assms by simp
    moreover have "2 powr real_of_int (int k) \<le> \<bar>x\<bar> \<and> \<bar>x\<bar> < 2 powr (real_of_int (int k) + 1)"
      using lo hi by (simp add: powr_realpow powr_add)
    ultimately show ?thesis
      using floor_log_eq_powr_iff[of "\<bar>x\<bar>" 2 "int k"] by simp
  qed
  then show ?thesis using e fk by simp
next
  case False
  define y where "y = 1 / \<bar>x\<bar>"
  have xp: "0 < \<bar>x\<bar>" using assms by simp
  have y1: "1 < y" using False xp by (simp add: y_def)
  define m where "m = nat (\<lceil>y\<rceil> - 1)"
  have c2: "2 \<le> \<lceil>y\<rceil>" using y1 by linarith
  have m1: "1 \<le> m" using c2 unfolding m_def by linarith
  have my: "real m < y" "y \<le> real m + 1" using c2 unfolding m_def by linarith+
  have e: "exponent x = - int (floorlog 2 m)" using False by (simp add: exponent_def m_def y_def)
  from floorlog_bounds[of m 2] m1
  have b: "2 ^ (floorlog 2 m - 1) \<le> m" "m < 2 ^ floorlog 2 m" by simp_all
  have f1: "1 \<le> floorlog 2 m" using m1 by (simp add: floorlog_def)
  define k where "k = floorlog 2 m - 1"
  have fk: "floorlog 2 m = Suc k" using f1 by (simp add: k_def)
  have lo: "2 ^ k < y"
  proof -
    have "real (2 ^ k) \<le> real m" using b(1) unfolding k_def by (simp only: of_nat_le_iff)
    then have "(2::real) ^ k \<le> real m" by simp
    with my show ?thesis by linarith
  qed
  have hi: "y \<le> 2 ^ Suc k"
  proof -
    from b(2) have "m + 1 \<le> 2 ^ Suc k" unfolding fk by simp
    then have "real (m + 1) \<le> real (2 ^ Suc k)" by (simp only: of_nat_le_iff)
    then have "real m + 1 \<le> 2 ^ Suc k" by simp
    with my show ?thesis by linarith
  qed
  have xl: "1 / 2 ^ Suc k \<le> \<bar>x\<bar>"
    using hi xp unfolding y_def by (simp add: field_simps)
  have xh: "\<bar>x\<bar> < 1 / 2 ^ k"
    using lo xp unfolding y_def by (simp add: field_simps)
  have "\<lfloor>log 2 \<bar>x\<bar>\<rfloor> = - int (Suc k)"
  proof -
    have p1: "2 powr real_of_int (- int (Suc k)) = 1 / 2 ^ Suc k"
      by (simp add: powr_minus_divide powr_realpow flip: of_nat_Suc)
    have "real_of_int (- int (Suc k)) + 1 = - real k" by simp
    then have p2: "2 powr (real_of_int (- int (Suc k)) + 1) = 1 / 2 ^ k"
      by (simp add: powr_minus_divide powr_realpow)
    have "2 powr real_of_int (- int (Suc k)) \<le> \<bar>x\<bar> \<and>
          \<bar>x\<bar> < 2 powr (real_of_int (- int (Suc k)) + 1)"
      unfolding p1 p2 using xl xh by simp
    then show ?thesis
      using floor_log_eq_powr_iff[of "\<bar>x\<bar>" 2 "- int (Suc k)"] xp by simp
  qed
  then show ?thesis using e fk by simp
qed

lemma exponent_log: "exponent x = \<lfloor>log 2 \<bar>x\<bar>\<rfloor>"
proof (cases "x = 0")
  case True
  then show ?thesis by (simp add: exponent_def floorlog_def log_def)
next
  case False
  then show ?thesis by (rule exponent_log_nz)
qed

lemma ulp_powr: "ulp x = 2 powr (real_of_int (max \<lfloor>log 2 \<bar>x\<bar>\<rfloor> (- 1022)) - 52)"
proof -
  have "(2::real) powr real_of_int (max \<lfloor>log 2 \<bar>x\<bar>\<rfloor> (- 1022) - 52) =
        2 powi (max \<lfloor>log 2 \<bar>x\<bar>\<rfloor> (- 1022) - 52)"
    by (rule powr_real_of_int') simp_all
  then show ?thesis unfolding ulp_def exponent_log by simp
qed

lemma ulp_pos: "0 < ulp x" by (simp add: ulp_def)

lemma round_half_even_err: "\<bar>of_int (round_half_even y) - y\<bar> \<le> 1 / 2"
  unfolding round_half_even_def Let_def by (auto simp: abs_if) linarith+

lemma round_half_even_int: "round_half_even (of_int k) = k"
  by (simp add: round_half_even_def)

lemma log2_floor_bounds:
  assumes "x \<noteq> 0"
  shows "2 powr (real_of_int \<lfloor>log 2 \<bar>x\<bar>\<rfloor>) \<le> \<bar>x\<bar>"
    and "\<bar>x\<bar> < 2 powr (real_of_int \<lfloor>log 2 \<bar>x\<bar>\<rfloor> + 1)"
proof -
  have p: "0 < \<bar>x\<bar>" using assms by simp
  have "2 powr (real_of_int \<lfloor>log 2 \<bar>x\<bar>\<rfloor>) \<le> 2 powr (log 2 \<bar>x\<bar>)"
    by (intro powr_mono) simp_all
  then show "2 powr (real_of_int \<lfloor>log 2 \<bar>x\<bar>\<rfloor>) \<le> \<bar>x\<bar>" using p by simp
  have "2 powr (log 2 \<bar>x\<bar>) < 2 powr (real_of_int \<lfloor>log 2 \<bar>x\<bar>\<rfloor> + 1)"
    by (intro powr_less_mono) linarith+
  then show "\<bar>x\<bar> < 2 powr (real_of_int \<lfloor>log 2 \<bar>x\<bar>\<rfloor> + 1)" using p by simp
qed

lemma ulp_le:
  assumes "x \<noteq> 0"
  shows "ulp x \<le> \<bar>x\<bar> / 2 ^ 52 + 1 / 2 ^ 1074"
proof (cases "- 1022 \<le> \<lfloor>log 2 \<bar>x\<bar>\<rfloor>")
  case True
  then have "max \<lfloor>log 2 \<bar>x\<bar>\<rfloor> (- 1022) = \<lfloor>log 2 \<bar>x\<bar>\<rfloor>"
    by (rule max_absorb1)
  then have "ulp x = 2 powr (real_of_int \<lfloor>log 2 \<bar>x\<bar>\<rfloor> - 52)"
    unfolding ulp_powr by (simp only:)
  also have "\<dots> = 2 powr (real_of_int \<lfloor>log 2 \<bar>x\<bar>\<rfloor>) / 2 powr 52"
    by (simp add: powr_diff)
  also have "\<dots> \<le> \<bar>x\<bar> / 2 powr 52"
    using log2_floor_bounds(1)[OF assms] by (simp add: divide_right_mono)
  finally have "ulp x \<le> \<bar>x\<bar> / 2 ^ 52" by simp
  then show ?thesis proof -
    have "(0::real) \<le> 1 / 2 ^ 1074" by simp
    with \<open>ulp x \<le> \<bar>x\<bar> / 2 ^ 52\<close> show ?thesis by linarith
  qed
next
  case False
  then have "max \<lfloor>log 2 \<bar>x\<bar>\<rfloor> (- 1022) = - 1022"
    by (intro max_absorb2) linarith
  then have "ulp x = 2 powr (real_of_int (- 1022) - 52)"
    unfolding ulp_powr by (simp only:)
  then have "ulp x = 2 powr (- 1074)" by simp
  also have "\<dots> = 1 / 2 ^ 1074"
    by (simp add: powr_minus_divide)
  finally have u: "ulp x = 1 / 2 ^ 1074" .
  have "0 \<le> \<bar>x\<bar> / 2 ^ 52" by simp
  with u show ?thesis by linarith
qed

lemma round_double_near:
  assumes "\<bar>x\<bar> \<le> 2 ^ 1023"
  shows "\<exists>y. round_double x = Fin y \<and> \<bar>y - x\<bar> \<le> \<bar>x\<bar> / 2 ^ 53 + 1 / 2 ^ 1075"
proof (cases "x = 0")
  case True
  then show ?thesis by (simp add: round_double_def)
next
  case False
  define y where "y = of_int (round_half_even (x / ulp x)) * ulp x"
  have "y - x = (of_int (round_half_even (x / ulp x)) - x / ulp x) * ulp x"
    using ulp_pos[of x] by (simp add: y_def algebra_simps)
  then have "\<bar>y - x\<bar> = \<bar>of_int (round_half_even (x / ulp x)) - x / ulp x\<bar> * ulp x"
    using ulp_pos[of x] by (simp add: abs_mult)
  also have "\<dots> \<le> (1 / 2) * ulp x"
    using round_half_even_err[of "x / ulp x"] ulp_pos[of x] by (intro mult_right_mono) simp_all
  also have "\<dots> \<le> (1 / 2) * (\<bar>x\<bar> / 2 ^ 52 + 1 / 2 ^ 1074)"
    using ulp_le[OF False] by simp
  also have "\<dots> = \<bar>x\<bar> / 2 ^ 53 + 1 / 2 ^ 1075" by simp
  finally have e: "\<bar>y - x\<bar> \<le> \<bar>x\<bar> / 2 ^ 53 + 1 / 2 ^ 1075" .
  have "\<bar>x\<bar> / 2 ^ 53 \<le> 2 ^ 1023 / 2 ^ 53" using assms by (simp add: divide_right_mono)
  moreover have "(2::real) ^ 1023 / 2 ^ 53 = 2 ^ 970" by (simp add: power_diff[symmetric])
  moreover have "(1::real) / 2 ^ 1075 \<le> 1" by (simp add: divide_le_eq)
  ultimately have "\<bar>y\<bar> \<le> 2 ^ 1023 + 2 ^ 970 + 1" using e assms by linarith
  moreover have "(2::real) ^ 970 + 1 < 2 ^ 1023"
  proof -
    have "(1::real) \<le> 2 ^ 970" by (rule one_le_power) simp
    moreover have "(2::real) ^ 971 \<le> 2 ^ 1022" by (rule power_increasing) simp_all
    moreover have "(2::real) ^ 971 = 2 * 2 ^ 970" "(2::real) ^ 1023 = 2 * 2 ^ 1022" by simp_all
    ultimately show ?thesis by linarith
  qed
  moreover have "(2::real) ^ 1024 = 2 * 2 ^ 1023" by simp
  ultimately have "\<bar>y\<bar> < 2 ^ 1024" by linarith
  then have "round_double x = Fin y"
    using False by (simp add: round_double_def y_def Let_def)
  with e show ?thesis by blast
qed

lemma round_double_int:
  assumes "\<bar>k\<bar> < 2 ^ 53"
  shows "round_double (of_int k) = Fin (of_int k)"
proof (cases "k = 0")
  case True
  then show ?thesis by (simp add: round_double_def)
next
  case False
  let ?x = "real_of_int k"
  have x1: "1 \<le> \<bar>?x\<bar>" using False by (simp flip: of_int_abs)
  have x2: "\<bar>?x\<bar> < 2 ^ 53" using assms by (metis of_int_abs of_int_less_numeral_power_cancel_iff)
  define e where "e = \<lfloor>log 2 \<bar>?x\<bar>\<rfloor>"
  have "0 \<le> log 2 \<bar>?x\<bar>" using x1 by simp
  then have e0: "0 \<le> e" by (simp add: e_def)
  have "\<bar>?x\<bar> < 2 powr 53" using x2 by simp
  then have "log 2 \<bar>?x\<bar> < 53" using x1 by (subst log_less_iff) simp_all
  then have e1: "e \<le> 52" unfolding e_def by linarith
  define m where "m = nat (52 - e)"
  have "max e (- 1022) = e" using e0 by simp
  then have "ulp ?x = 2 powr (real_of_int e - 52)" unfolding ulp_powr e_def[symmetric] by (simp only:)
  also have "real_of_int e - 52 = - real m" using e1 by (simp add: m_def)
  also have "2 powr (- real m) = 1 / 2 ^ m" by (simp add: powr_minus_divide powr_realpow)
  finally have u: "ulp ?x = 1 / 2 ^ m" .
  have q: "?x / ulp ?x = of_int (k * 2 ^ m)" by (simp add: u)
  have "of_int (round_half_even (?x / ulp ?x)) * ulp ?x = ?x"
    unfolding q round_half_even_int by (simp add: u)
  moreover have "\<bar>?x\<bar> < 2 ^ 1024"
  proof -
    have "(2::real) ^ 53 \<le> 2 ^ 1024" by (rule power_increasing) simp_all
    with x2 show ?thesis by linarith
  qed
  ultimately show ?thesis using False by (simp add: round_double_def Let_def)
qed

lemma round_half_even_ge_floor: "\<lfloor>y\<rfloor> \<le> round_half_even y"
  by (simp add: round_half_even_def Let_def)

lemma round_double_big:
  assumes "x \<noteq> 0" and "2 ^ 1024 \<le> \<bar>of_int (round_half_even (x / ulp x)) * ulp x\<bar>"
  shows "round_double x = (if 0 < x then PInf else NInf)"
  unfolding round_double_def Let_def using assms by (simp only: if_True if_False)

lemma round_double_overflow:
  assumes "2 ^ 1024 \<le> x"
  shows "round_double x = PInf"
proof -
  have xp: "0 < x"
  proof -
    have "(0::real) < 2 ^ 1024" by (rule zero_less_power) simp
    with assms show ?thesis by linarith
  qed
  define e where "e = \<lfloor>log 2 \<bar>x\<bar>\<rfloor>"
  have p1024: "(2::real) powr 1024 = 2 ^ 1024" by (rule powr_numeral) simp
  have "2 powr 1024 \<le> x" using assms unfolding p1024 .
  then have "1024 \<le> log 2 x" using xp by (subst le_log_iff) simp_all
  then have "1024 \<le> log 2 \<bar>x\<bar>" using xp by simp
  then have e0: "1024 \<le> e" unfolding e_def by linarith
  have "max e (- 1022) = e" using e0 by simp
  then have u: "ulp x = 2 powr (real_of_int e - 52)" unfolding ulp_powr e_def[symmetric] by (simp only:)
  have le: "2 powr (real_of_int e) \<le> x"
    using log2_floor_bounds(1)[of x] xp by (simp add: e_def)
  have p52: "(2::real) powr 52 = 2 ^ 52" by (rule powr_numeral) simp
  have a: "2 powr (real_of_int e) / ulp x \<le> x / ulp x"
    using le ulp_pos[of x] by (intro divide_right_mono) simp_all
  have "2 powr (real_of_int e) / ulp x = 2 powr 52" unfolding u by (simp only: powr_diff[symmetric]) simp
  with a have "real_of_int (2 ^ 52) \<le> x / ulp x" unfolding p52 by simp
  then have "(2::int) ^ 52 \<le> \<lfloor>x / ulp x\<rfloor>" by (simp only: le_floor_iff)
  with round_half_even_ge_floor[of "x / ulp x"]
  have "(2::int) ^ 52 \<le> round_half_even (x / ulp x)" by linarith
  then have "real_of_int (2 ^ 52) \<le> of_int (round_half_even (x / ulp x))"
    by (simp only: of_int_le_iff)
  then have r: "(2::real) powr 52 \<le> of_int (round_half_even (x / ulp x))"
    unfolding p52 by simp
  have "2 powr 52 * ulp x \<le> of_int (round_half_even (x / ulp x)) * ulp x"
    using r ulp_pos[of x] by (intro mult_right_mono) simp_all
  moreover have "2 powr 52 * ulp x = 2 powr (real_of_int e)"
    unfolding u by (simp only: powr_add[symmetric]) simp
  moreover have "2 powr 1024 \<le> 2 powr (real_of_int e)" using e0 by (intro powr_mono) simp_all
  ultimately have "2 powr 1024 \<le> of_int (round_half_even (x / ulp x)) * ulp x" by linarith
  then have "2 ^ 1024 \<le> \<bar>of_int (round_half_even (x / ulp x)) * ulp x\<bar>"
    unfolding p1024 by linarith
  from round_double_big[OF _ this] xp show ?thesis by simp
qed

lemma to_zero_int: "to_zero (of_int k) = k"
  by (simp add: to_zero_def)

lemma double_sub_Fin: "double_sub (Fin a) (Fin b) = round_double (a - b)"
  by (simp add: double_sub_def fsub_def)

lemma double_add_Fin: "double_add (Fin a) (Fin b) = round_double (a + b)"
  by (simp add: double_add_def)

lemma snap_to_integer:
  assumes q: "1 \<le> q" "q \<le> 2 ^ 50" and d: "\<bar>d - of_int q\<bar> \<le> 2 / 5"
  shows "(let floordiv = double_floor (Fin d)
          in if fgt (double_sub (Fin d) floordiv) (Fin (1 / 2))
             then double_add floordiv (Fin 1)
             else floordiv) = Fin (of_int q)"
proof -
  have small: "\<bar>y\<bar> \<le> 1 \<Longrightarrow> \<exists>y'. round_double y = Fin y' \<and> \<bar>y' - y\<bar> \<le> 1 / 1000" for y
  proof -
    assume y: "\<bar>y\<bar> \<le> 1"
    have "(1::real) \<le> 2 ^ 1023" by (rule one_le_power) simp
    with y have "\<bar>y\<bar> \<le> 2 ^ 1023" by linarith
    from round_double_near[OF this] obtain y' where
      r: "round_double y = Fin y'" and e: "\<bar>y' - y\<bar> \<le> \<bar>y\<bar> / 2 ^ 53 + 1 / 2 ^ 1075"
      by blast
    have "(2::real) ^ 11 \<le> 2 ^ 53" by (rule power_increasing) simp_all
    then have a: "(1::real) / 2 ^ 53 \<le> 1 / 2 ^ 11" by (intro divide_left_mono) simp_all
    have "(2::real) ^ 11 \<le> 2 ^ 1075" by (rule power_increasing) simp_all
    then have b: "(1::real) / 2 ^ 1075 \<le> 1 / 2 ^ 11" by (intro divide_left_mono) simp_all
    have "\<bar>y\<bar> / 2 ^ 53 \<le> 1 / 2 ^ 53" using y by (intro divide_right_mono) simp_all
    with a b e have "\<bar>y' - y\<bar> \<le> 1 / 2 ^ 11 + 1 / 2 ^ 11" by linarith
    also have "\<dots> \<le> 1 / 1000" by simp
    finally show ?thesis using r by blast
  qed
  have qi: "round_double (of_int q) = Fin (of_int q)"
  proof (rule round_double_int)
    have "(2::int) ^ 50 < 2 ^ 53" by (rule power_strict_increasing) simp_all
    with q show "\<bar>q\<bar> < 2 ^ 53" by linarith
  qed
  show ?thesis
  proof (cases "of_int q \<le> d")
    case True
    with d have f: "\<lfloor>d\<rfloor> = q" by (intro floor_unique) linarith+
    from True d have "\<bar>d - of_int q\<bar> \<le> 1" by linarith
    from small[OF this] obtain y' where
      r: "round_double (d - of_int q) = Fin y'" and e: "\<bar>y' - (d - of_int q)\<bar> \<le> 1 / 1000"
      by blast
    from e d True have "\<not> 1 / 2 < y'" by linarith
    then show ?thesis
      by (simp only: Let_def double_floor.simps f double_sub_Fin r fgt.simps if_False)
  next
    case False
    have c: "real_of_int (q - 1) = of_int q - 1" by simp
    from False d have f: "\<lfloor>d\<rfloor> = q - 1" unfolding floor_eq_iff c by linarith
    from False d have "\<bar>d - of_int (q - 1)\<bar> \<le> 1" unfolding c by linarith
    from small[OF this] obtain y' where
      r: "round_double (d - of_int (q - 1)) = Fin y'"
      and e: "\<bar>y' - (d - of_int (q - 1))\<bar> \<le> 1 / 1000"
      by blast
    from e d False have "1 / 2 < y'" unfolding c by linarith
    moreover have "real_of_int (q - 1) + 1 = of_int q" by simp
    ultimately show ?thesis
      using qi
      by (simp only: Let_def double_floor.simps f double_sub_Fin r fgt.simps if_True
          double_add_Fin)
  qed
qed

lemma quotient_close:
  assumes r: "0 < r" and q: "1 \<le> q" "q \<le> 2 ^ 50"
    and lo: "r * of_int q \<le> n" and hi: "n < r * of_int q + r" and n: "1 \<le> n" "n < 2 ^ 53"
  shows "\<exists>d. double_div (round_double (r * of_int q)) r = Fin d \<and> \<bar>d - of_int q\<bar> \<le> 2 / 5"
proof -
  let ?q = "real_of_int q"
  have q1: "1 \<le> ?q" using q(1) by simp
  have q50: "?q \<le> 2 ^ 50" using q(2) by (metis of_int_le_iff of_int_numeral of_int_power)
  have rq_lo: "1 / 2 \<le> r * ?q"
  proof (cases "1 / 2 \<le> r")
    case True
    have "r * 1 \<le> r * ?q" using r q1 by (intro mult_left_mono) simp_all
    then have "r \<le> r * ?q" by simp
    with True show ?thesis by linarith
  next
    case False
    with hi n(1) show ?thesis by linarith
  qed
  have p53: "(2::real) ^ 53 \<le> 2 ^ 1023" by (rule power_increasing) simp_all
  have "\<bar>r * ?q\<bar> \<le> 2 ^ 1023" using rq_lo lo n(2) p53 by linarith
  from round_double_near[OF this] obtain a where
    a: "round_double (r * ?q) = Fin a"
    and ae: "\<bar>a - r * ?q\<bar> \<le> \<bar>r * ?q\<bar> / 2 ^ 53 + 1 / 2 ^ 1075"
    by blast
  have t: "(1::real) / 2 ^ 1075 \<le> (1 / 2) / 2 ^ 53"
  proof -
    have "(2::real) ^ 54 \<le> 2 ^ 1075" by (rule power_increasing) simp_all
    then have "(1::real) / 2 ^ 1075 \<le> 1 / 2 ^ 54" by (intro divide_left_mono) simp_all
    then show ?thesis by simp
  qed
  have "(1 / 2) / 2 ^ 53 \<le> (r * ?q) / 2 ^ 53" using rq_lo by (intro divide_right_mono) simp_all
  with t ae rq_lo have "\<bar>a - r * ?q\<bar> \<le> (r * ?q) / 2 ^ 53 + (r * ?q) / 2 ^ 53" by linarith
  then have ae2: "\<bar>a - r * ?q\<bar> \<le> r * (?q / 2 ^ 52)" by simp
  have "a / r - ?q = (a - r * ?q) / r" using r by (simp add: field_simps)
  then have "\<bar>a / r - ?q\<bar> = \<bar>a - r * ?q\<bar> / r"
    by (simp only: abs_divide abs_of_pos[OF r])
  also have "\<dots> \<le> (r * (?q / 2 ^ 52)) / r" using ae2 r by (intro divide_right_mono) simp_all
  also have "\<dots> = ?q / 2 ^ 52" using r by simp
  finally have b1: "\<bar>a / r - ?q\<bar> \<le> ?q / 2 ^ 52" .
  have "?q / 2 ^ 52 \<le> 2 ^ 50 / 2 ^ 52" using q50 by (intro divide_right_mono) simp_all
  then have b2: "?q / 2 ^ 52 \<le> 1 / 4" by simp
  have p51: "(2::real) ^ 51 \<le> 2 ^ 1023" by (rule power_increasing) simp_all
  have p5051: "(2::real) ^ 51 = 2 * 2 ^ 50" by simp
  have one50: "(1::real) \<le> 2 ^ 50" by (rule one_le_power) simp
  have ar: "\<bar>a / r\<bar> \<le> 2 ^ 50 + 1" using b1 b2 q50 q1 by linarith
  then have "\<bar>a / r\<bar> \<le> 2 ^ 1023" using p51 p5051 one50 by linarith
  from round_double_near[OF this] obtain d where
    d: "round_double (a / r) = Fin d"
    and de: "\<bar>d - a / r\<bar> \<le> \<bar>a / r\<bar> / 2 ^ 53 + 1 / 2 ^ 1075"
    by blast
  have small: "(1::real) / 2 ^ k \<le> 1 / 100" if "7 \<le> k" for k :: nat
  proof -
    have "(2::real) ^ 7 \<le> 2 ^ k" using that by (intro power_increasing) simp_all
    then have "(1::real) / 2 ^ k \<le> 1 / 2 ^ 7" by (intro divide_left_mono) simp_all
    then show ?thesis by simp
  qed
  have "\<bar>a / r\<bar> / 2 ^ 53 \<le> (2 ^ 50 + 1) / 2 ^ 53" using ar by (intro divide_right_mono) simp_all
  also have "\<dots> = 1 / 8 + 1 / 2 ^ 53" by (simp add: add_divide_distrib)
  also have "\<dots> \<le> 1 / 8 + 1 / 100" using small[of 53] by simp
  finally have c1: "\<bar>a / r\<bar> / 2 ^ 53 \<le> 1 / 8 + 1 / 100" .
  have c2: "(1::real) / 2 ^ 1075 \<le> 1 / 100" using small[of 1075] by simp
  have "\<bar>d - ?q\<bar> \<le> 2 / 5" using de c1 c2 b1 b2 by linarith
  with a d show ?thesis by simp
qed


lemma latent_size_exact:
  assumes "0 < n" and "n < 2 ^ 53" and "0 < r" and "\<lfloor>real n / r\<rfloor> \<le> 2 ^ 50"
  shows "latent_size n r = Inr \<lfloor>real n / r\<rfloor>"
proof -
  define q where "q = \<lfloor>real n / r\<rfloor>"
  let ?n = "real n"
  have n1: "1 \<le> ?n" using assms(1) by simp
  have n53: "?n < 2 ^ 53" using assms(2) by (metis of_nat_less_numeral_power_cancel_iff)
  have "\<bar>int n\<bar> < 2 ^ 53" using assms(2) by simp
  from round_double_int[OF this] have conv: "int_to_double (int n) = Inr ?n"
    by (simp add: int_to_double_def)
  have q0: "0 \<le> q" using assms(1,3) by (simp add: q_def)
  have "of_int q \<le> ?n / r" "?n / r < of_int q + 1" unfolding q_def by linarith+
  then have lo: "r * of_int q \<le> ?n" and hi: "?n < r * of_int q + r"
    using assms(3) by (simp_all add: field_simps)
  have tr: "to_zero (?n / r) = q" using assms(3) by (simp add: to_zero_def q_def)
  have rem: "c_fmod ?n r = ?n - r * of_int q" by (simp add: c_fmod_def tr)
  have diff: "?n - c_fmod ?n r = r * of_int q" by (simp add: rem)
  have sign: "\<not> (c_fmod ?n r \<noteq> 0 \<and> (r < 0) \<noteq> (c_fmod ?n r < 0))"
    using lo assms(3) by (simp add: rem)
  have r0: "r \<noteq> 0" using assms(3) by simp
  have "float_floor_div ?n r = Inr (Fin (of_int q))"
  proof (cases "q = 0")
    case True
    have diff0: "?n - c_fmod ?n r = 0" using True diff by simp
    have dd0: "double_div (round_double 0) r = Fin 0" by (simp add: round_double_def)
    have "\<not> r < 0" "\<not> c_fmod ?n r < 0" using assms(3) lo by (simp_all add: rem)
    then show ?thesis
      using r0 by (simp add: float_floor_div_def Let_def diff0 dd0 True)
  next
    case False
    with q0 have q1: "1 \<le> q" by simp
    have q50: "q \<le> 2 ^ 50" using assms(4) by (simp add: q_def)
    from quotient_close[OF assms(3) q1 q50 lo hi n1 n53] obtain d where
      d: "double_div (round_double (r * of_int q)) r = Fin d" and de: "\<bar>d - of_int q\<bar> \<le> 2 / 5"
      by blast
    have dn: "Fin d \<noteq> Fin 0"
    proof -
      have "1 \<le> real_of_int q" using q1 by simp
      with de show ?thesis by auto
    qed
    show ?thesis
      unfolding float_floor_div_def
      using r0 sign dn snap_to_integer[OF q1 q50 de]
      by (simp only: Let_def diff d if_False if_True not_False_eq_True)
  qed
  then show ?thesis
    by (simp add: latent_size_def conv to_zero_int q_def)
qed

lemma latent_size_overflow:
  "latent_size 2 (1 / 2 ^ 1070) = Inl OverflowError"
proof -
  let ?r = "1 / 2 ^ 1070 :: real"
  have conv: "int_to_double 2 = Inr 2"
    using round_double_int[of 2] by (simp add: int_to_double_def)
  have q: "(2::real) / ?r = of_int (2 ^ 1071)" by simp
  have tr: "to_zero (2 / ?r) = 2 ^ 1071" unfolding q to_zero_int ..
  have rem: "c_fmod 2 ?r = 0" unfolding c_fmod_def tr by simp
  have two: "round_double 2 = Fin 2" using round_double_int[of 2] by simp
  have "(2::real) ^ 1024 \<le> 2 ^ 1071" by (rule power_increasing) simp_all
  then have "(2::real) ^ 1024 \<le> 2 / ?r" by simp
  from round_double_overflow[OF this] have big: "double_div (Fin 2) ?r = PInf" by simp
  have r0: "?r \<noteq> 0" by simp
  have "float_floor_div 2 ?r = Inr PInf"
    unfolding float_floor_div_def Let_def rem
    using r0 big two by (simp add: double_sub_def fsub_def)
  then show ?thesis by (simp add: latent_size_def conv)
qed

section \<open>Sizing of the model in \<^verbatim>\<open>compress\<close>\<close>

lemma compress_Inr:
  assumes "fst (compress w model_path input_path' cfg) = Inr out"
  shows "\<exists>d nd A M z.
           datasets w input_path' = Some d \<and>
           latent_size (length (get_columns d)) (compression_ratio cfg) = Inr z \<and>
           normalize_frame (cols d) (cfg\<lparr>cleared_col_names := Some (get_columns d)\<rparr>) = Inr nd \<and>
           models w (model_name cfg) = Some A \<and>
           load_model w A model_path (length (get_columns d)) z = Inr M \<and>
           out = (encode A M nd, cols d)"
  using assms
  by (auto simp: compress_def data_loader_def initialise_model_def Let_def
      split: option.splits sum.splits if_splits)

lemma load_model_Inr:
  "load_model w A model_path n z = Inr M \<Longrightarrow> n_features M = n \<and> z_dim M = z"
  by (auto simp: load_model_def split: sum.splits if_splits)

lemma compress_success:
  assumes "datasets w input_path' = Some d"
    and "latent_size (length (get_columns d)) (compression_ratio cfg) = Inr z"
    and "normalize_frame (cols d) (cfg\<lparr>cleared_col_names := Some (get_columns d)\<rparr>) = Inr nd"
    and "models w (model_name cfg) = Some A"
    and "load_model w A model_path (length (get_columns d)) z = Inr M"
  shows "compress w model_path input_path' cfg =
           (Inr (encode A M nd, cols d), cfg\<lparr>cleared_col_names := Some (get_columns d)\<rparr>)"
  using assms
  by (simp add: compress_def data_loader_def initialise_model_def Let_def)

lemma compress_latent_error:
  assumes "datasets w input_path' = Some d"
    and "latent_size (length (get_columns d)) (compression_ratio cfg) = Inl e"
  shows "fst (compress w model_path input_path' cfg) = Inl e"
  using assms by (simp add: compress_def data_loader_def Let_def)

text \<open>
  Claim C2, amended. For \<open>n\<close> columns with \<open>0 < n < 2 ^ 53\<close> and a compression
  ratio \<open>r > 0\<close> whose quotient \<open>floor (n / r)\<close> is at most \<open>2 ^ 50\<close>, line 170
  raises nothing and its value, computed in double precision, is exactly the
  specification's latent width \<open>floor (n / r)\<close>. Under these bounds a call of
  \<^verbatim>\<open>compress\<close> whose dataset has \<open>n\<close> columns and normalises, whose architecture
  exists and whose loader accepts the sizes \<open>n\<close> and \<open>floor (n / r)\<close> succeeds with
  the encoding by that model; and every call that succeeds has loaded its model with
  \<open>n_features = n\<close> and \<open>z_dim = floor (n / r)\<close>.
\<close>

theorem compress_latent_width:
  assumes "0 < n" and "n < 2 ^ 53" and "0 < r" and "\<lfloor>real n / r\<rfloor> \<le> 2 ^ 50"
  shows "latent_size n r = Inr (latent_width n r) \<and>
         (\<forall>w model_path input_path' cfg d nd A M.
            datasets w input_path' = Some d \<and> length (get_columns d) = n \<and>
            compression_ratio cfg = r \<and>
            normalize_frame (cols d) (cfg\<lparr>cleared_col_names := Some (get_columns d)\<rparr>) = Inr nd \<and>
            models w (model_name cfg) = Some A \<and>
            load_model w A model_path n (latent_width n r) = Inr M \<longrightarrow>
            fst (compress w model_path input_path' cfg) = Inr (encode A M nd, cols d) \<and>
            n_features M = n \<and> z_dim M = latent_width n r) \<and>
         (\<forall>w model_path input_path' cfg d out.
            datasets w input_path' = Some d \<and> length (get_columns d) = n \<and>
            compression_ratio cfg = r \<and>
            fst (compress w model_path input_path' cfg) = Inr out \<longrightarrow>
            (\<exists>A M. models w (model_name cfg) = Some A \<and>
                   load_model w A model_path n (latent_width n r) = Inr M \<and>
                   n_features M = n \<and> z_dim M = latent_width n r))"
proof -
  have ls: "latent_size n r = Inr (latent_width n r)"
    unfolding latent_width_def by (rule latent_size_exact[OF assms])
  have fwd: "fst (compress w model_path input_path' cfg) = Inr (encode A M nd, cols d) \<and>
            n_features M = n \<and> z_dim M = latent_width n r"
    if h: "datasets w input_path' = Some d \<and> length (get_columns d) = n \<and>
            compression_ratio cfg = r \<and>
            normalize_frame (cols d) (cfg\<lparr>cleared_col_names := Some (get_columns d)\<rparr>) = Inr nd \<and>
            models w (model_name cfg) = Some A \<and>
            load_model w A model_path n (latent_width n r) = Inr M"
    for w model_path input_path' cfg d nd A M
  proof -
    from h ls have l: "latent_size (length (get_columns d)) (compression_ratio cfg) =
        Inr (latent_width n r)"
      and m: "load_model w A model_path (length (get_columns d)) (latent_width n r) = Inr M"
      by simp_all
    from h have "compress w model_path input_path' cfg =
           (Inr (encode A M nd, cols d), cfg\<lparr>cleared_col_names := Some (get_columns d)\<rparr>)"
      by (intro compress_success[OF _ l _ _ m]) simp_all
    moreover from h load_model_Inr have "n_features M = n \<and> z_dim M = latent_width n r"
      by blast
    ultimately show ?thesis by simp
  qed
  have bwd: "\<exists>A M. models w (model_name cfg) = Some A \<and>
                   load_model w A model_path n (latent_width n r) = Inr M \<and>
                   n_features M = n \<and> z_dim M = latent_width n r"
    if h: "datasets w input_path' = Some d \<and> length (get_columns d) = n \<and>
            compression_ratio cfg = r \<and>
            fst (compress w model_path input_path' cfg) = Inr out"
    for w model_path input_path' cfg d out
  proof -
    from h compress_Inr[of w model_path input_path' cfg out] ls
    obtain A M where "models w (model_name cfg) = Some A"
      and "load_model w A model_path n (latent_width n r) = Inr M"
      by auto
    then show ?thesis using load_model_Inr by blast
  qed
  from ls fwd bwd show ?thesis by blast
qed

lemma load_demo: "load_model demo_world demo_arch ''model.pt'' 2 1 =
    Inr \<lparr> n_features = 2, z_dim = 1, weights = demo_weights \<rparr>"
  by (simp add: load_model_def torch_load_def demo_world_def demo_arch_def demo_weights_def)

lemma normalize_big:
  "\<not> custom_norm cfg \<Longrightarrow> normalize_frame (cols big_frame) cfg = Inr [[0, 1], [0, 1]]"
  by (simp add: normalize_frame_def apply_along_axis0_def dp_normalize_def column_minmax_def
      big_frame_def)

lemma latent_size_two: "latent_size 2 2 = Inr 1"
proof -
  have "(2::nat) < 2 ^ 53" by (rule less_le_trans[of _ "2 ^ 2"]) simp_all
  moreover have "\<lfloor>real (2::nat) / 2\<rfloor> \<le> (2::int) ^ 50" by simp
  ultimately have "latent_size 2 2 = Inr \<lfloor>real (2::nat) / 2\<rfloor>"
    by (intro latent_size_exact) simp_all
  then show ?thesis by simp
qed

lemma big_frame_columns: "length (get_columns big_frame) = 2"
  by (simp add: get_columns_def big_frame_def)

lemma compress_demo:
  "compress demo_world ''model.pt'' ''big.pickle'' default_config =
     (Inr ([[0, 1]], [[0, 5], [1, 2]]), default_config\<lparr>cleared_col_names := Some [''pt'', ''eta'']\<rparr>)"
proof -
  have 1: "datasets demo_world ''big.pickle'' = Some big_frame" by (simp add: demo_world_def)
  have 2: "latent_size (length (get_columns big_frame)) (compression_ratio default_config) = Inr 1"
    unfolding big_frame_columns using latent_size_two by (simp add: default_config_def)
  have 3: "normalize_frame (cols big_frame)
             (default_config\<lparr>cleared_col_names := Some (get_columns big_frame)\<rparr>) = Inr [[0, 1], [0, 1]]"
    by (rule normalize_big) (simp add: default_config_def)
  have 4: "models demo_world (model_name default_config) = Some demo_arch"
    by (simp add: demo_world_def default_config_def)
  have 5: "load_model demo_world demo_arch ''model.pt'' (length (get_columns big_frame)) 1 =
           Inr \<lparr> n_features = 2, z_dim = 1, weights = demo_weights \<rparr>"
    unfolding big_frame_columns by (rule load_demo)
  show ?thesis
    unfolding compress_success[OF 1 2 3 4 5]
    by (simp add: demo_arch_def get_columns_def big_frame_def)
qed

text \<open>
  Claim C2, amended, on two columns and the default ratio of two: \<^verbatim>\<open>compress\<close>
  succeeds with a model of latent width one.
\<close>

theorem compress_latent_width_witness:
  "(0::nat) < 2 \<and> (0::real) < 2 \<and>
   latent_size 2 2 = Inr 1 \<and> latent_width 2 2 = 1 \<and>
   fst (compress demo_world ''model.pt'' ''big.pickle'' default_config) =
     Inr ([[0, 1]], [[0, 5], [1, 2]]) \<and>
   (\<exists>M. load_model demo_world demo_arch ''model.pt'' 2 1 = Inr M \<and> z_dim M = 1)"
proof -
  have h1: "(0::nat) < 2" and h3: "(0::real) < 2" by simp_all
  have h2: "(2::nat) < 2 ^ 53" by (rule less_le_trans[of _ "2 ^ 2"]) simp_all
  have h4: "\<lfloor>real (2::nat) / 2\<rfloor> \<le> (2::int) ^ 50" by simp
  note t = compress_latent_width[OF h1 h2 h3 h4]
  have w: "latent_width 2 2 = 1" by (simp add: latent_width_def)
  from t w have l: "latent_size 2 2 = Inr 1" by simp
  have d: "datasets demo_world ''big.pickle'' = Some big_frame \<and>
           length (get_columns big_frame) = 2 \<and>
           compression_ratio default_config = 2 \<and>
           normalize_frame (cols big_frame)
             (default_config\<lparr>cleared_col_names := Some (get_columns big_frame)\<rparr>) =
             Inr [[0, 1], [0, 1]] \<and>
           models demo_world (model_name default_config) = Some demo_arch \<and>
           load_model demo_world demo_arch ''model.pt'' 2 (latent_width 2 2) =
             Inr \<lparr> n_features = 2, z_dim = 1, weights = demo_weights \<rparr>"
    using normalize_big[of "default_config\<lparr>cleared_col_names := Some (get_columns big_frame)\<rparr>"]
      load_demo
    by (simp add: w big_frame_columns) (simp add: demo_world_def default_config_def)
  from t d
  have "fst (compress demo_world ''model.pt'' ''big.pickle'' default_config) =
          Inr (encode demo_arch \<lparr> n_features = 2, z_dim = 1, weights = demo_weights \<rparr>
                 [[0, 1], [0, 1]], cols big_frame)"
    by blast
  then have c: "fst (compress demo_world ''model.pt'' ''big.pickle'' default_config) =
     Inr ([[0, 1]], [[0, 5], [1, 2]])"
    by (simp add: demo_arch_def big_frame_def)
  from load_demo have m: "\<exists>M. load_model demo_world demo_arch ''model.pt'' 2 1 = Inr M \<and> z_dim M = 1"
    by simp
  from h1 h3 l w c m show ?thesis by blast
qed

lemma tiny_ratio: "compression_ratio tiny_ratio_config = 1 / 2 ^ 1070"
  by (simp add: tiny_ratio_config_def)

text \<open>
  Claim C2 as stated fails: with two columns and the positive compression ratio
  \<open>2 powr (-1070)\<close> the quotient is beyond the doubles, the floor division yields
  infinity, \<^verbatim>\<open>int\<close> raises \<^verbatim>\<open>OverflowError\<close> and so does \<^verbatim>\<open>compress\<close>: there
  is no latent width.
\<close>

theorem compress_overflows_on_tiny_ratio:
  "(0::nat) < 2 \<and> (0::real) < compression_ratio tiny_ratio_config \<and>
   latent_size 2 (compression_ratio tiny_ratio_config) = Inl OverflowError \<and>
   fst (compress demo_world ''model.pt'' ''big.pickle'' tiny_ratio_config) = Inl OverflowError"
proof -
  have p: "(0::real) < compression_ratio tiny_ratio_config" unfolding tiny_ratio by simp
  have l: "latent_size 2 (compression_ratio tiny_ratio_config) = Inl OverflowError"
    unfolding tiny_ratio by (rule latent_size_overflow)
  have 1: "datasets demo_world ''big.pickle'' = Some big_frame" by (simp add: demo_world_def)
  have "latent_size (length (get_columns big_frame)) (compression_ratio tiny_ratio_config) =
      Inl OverflowError"
    unfolding big_frame_columns by (rule l)
  from compress_latent_error[OF 1 this]
  have "fst (compress demo_world ''model.pt'' ''big.pickle'' tiny_ratio_config) = Inl OverflowError" .
  with p l show ?thesis by simp
qed

section \<open>Sizing of the model in \<^verbatim>\<open>decompress\<close>\<close>

lemma decompress_Inr:
  assumes "fst (decompress w model_path input_path' cfg) = Inr out"
  shows "\<exists>data sd A.
           latents w input_path' = Some data \<and> data \<noteq> [] \<and>
           model_files w model_path = Some sd \<and> sd \<noteq> [] \<and>
           models w (model_name cfg) = Some A \<and>
           fits A sd (tensor_len (snd (last sd))) (int (length (hd data))) \<and>
           out = decode A \<lparr> n_features = tensor_len (snd (last sd)),
                            z_dim = int (length (hd data)), weights = sd \<rparr> data"
  using assms
  by (auto simp: decompress_def data_loader_latent_def torch_load_def initialise_model_def
      load_model_def Let_def split: option.splits sum.splits if_splits list.splits)

lemma decompress_success:
  assumes "latents w input_path' = Some data" and "data \<noteq> []"
    and "model_files w model_path = Some sd" and "sd \<noteq> []"
    and "models w (model_name cfg) = Some A"
    and "fits A sd (tensor_len (snd (last sd))) (int (length (hd data)))"
  shows "decompress w model_path input_path' cfg =
           (Inr (decode A \<lparr> n_features = tensor_len (snd (last sd)),
                            z_dim = int (length (hd data)), weights = sd \<rparr> data), cfg)"
  using assms
  by (cases data)
     (simp_all add: decompress_def data_loader_latent_def torch_load_def initialise_model_def
      load_model_def Let_def)

lemma decompress_errors:
  "fst (decompress w model_path input_path' cfg) = Inl e \<Longrightarrow>
     e = FileNotFoundError input_path' \<or> e = FileNotFoundError model_path \<or> e = IndexError \<or>
     e = AttributeError (model_name cfg) \<or> e = ArchitectureMismatchError"
  by (auto simp: decompress_def data_loader_latent_def torch_load_def initialise_model_def
      load_model_def Let_def split: option.splits sum.splits if_splits list.splits)

lemma decompress_ratio:
  "fst (decompress w model_path input_path' (cfg\<lparr>compression_ratio := r\<rparr>)) =
   fst (decompress w model_path input_path' cfg)"
  by (auto simp: decompress_def data_loader_latent_def torch_load_def initialise_model_def
      load_model_def Let_def split: option.splits sum.splits if_splits list.splits)

text \<open>
  Claim C10. Every call of \<^verbatim>\<open>decompress\<close> that succeeds has loaded its model with
  \<open>z_dim\<close> equal to the length of the first row of the loaded latent data and with
  \<open>n_features\<close> equal to the length of the last entry of the weight dictionary read from
  the model file; and the outcome of \<^verbatim>\<open>decompress\<close> is the same whatever the
  configuration's \<^verbatim>\<open>compression_ratio\<close> is.
\<close>

theorem decompress_sizes:
  "(\<forall>out. fst (decompress w model_path input_path' cfg) = Inr out \<longrightarrow>
      (\<exists>data sd A M.
         latents w input_path' = Some data \<and> data \<noteq> [] \<and>
         model_files w model_path = Some sd \<and> sd \<noteq> [] \<and>
         models w (model_name cfg) = Some A \<and>
         load_model w A model_path (tensor_len (snd (last sd))) (int (length (hd data))) = Inr M \<and>
         z_dim M = int (length (hd data)) \<and>
         n_features M = tensor_len (snd (last sd)) \<and>
         out = decode A M data)) \<and>
   (\<forall>r. fst (decompress w model_path input_path' (cfg\<lparr>compression_ratio := r\<rparr>)) =
        fst (decompress w model_path input_path' cfg))"
proof (intro conjI allI impI)
  fix out
  assume "fst (decompress w model_path input_path' cfg) = Inr out"
  from decompress_Inr[OF this] obtain data sd A where
    h: "latents w input_path' = Some data" "data \<noteq> []" "model_files w model_path = Some sd"
       "sd \<noteq> []" "models w (model_name cfg) = Some A"
       "fits A sd (tensor_len (snd (last sd))) (int (length (hd data)))"
       "out = decode A \<lparr> n_features = tensor_len (snd (last sd)),
                            z_dim = int (length (hd data)), weights = sd \<rparr> data"
    by blast
  let ?M = "\<lparr> n_features = tensor_len (snd (last sd)), z_dim = int (length (hd data)), weights = sd \<rparr>"
  have "load_model w A model_path (tensor_len (snd (last sd))) (int (length (hd data))) = Inr ?M"
    using h(3,6) by (simp add: load_model_def torch_load_def)
  with h show "\<exists>data sd A M.
         latents w input_path' = Some data \<and> data \<noteq> [] \<and>
         model_files w model_path = Some sd \<and> sd \<noteq> [] \<and>
         models w (model_name cfg) = Some A \<and>
         load_model w A model_path (tensor_len (snd (last sd))) (int (length (hd data))) = Inr M \<and>
         z_dim M = int (length (hd data)) \<and>
         n_features M = tensor_len (snd (last sd)) \<and>
         out = decode A M data"
    by (intro exI[of _ data] exI[of _ sd] exI[of _ A] exI[of _ ?M]) simp
next
  fix r
  show "fst (decompress w model_path input_path' (cfg\<lparr>compression_ratio := r\<rparr>)) =
        fst (decompress w model_path input_path' cfg)"
    by (rule decompress_ratio)
qed

lemma decompress_demo:
  "model_name cfg = ''george_SAE'' \<Longrightarrow>
   decompress demo_world ''model.pt'' ''compressed.pickle'' cfg = (Inr [[1 / 2, 0], [1, 0]], cfg)"
proof -
  assume n: "model_name cfg = ''george_SAE''"
  have 1: "latents demo_world ''compressed.pickle'' = Some [[1 / 2], [1]]"
    by (simp add: demo_world_def)
  have 2: "[[1 / 2], [1::real]] \<noteq> []" by simp
  have 3: "model_files demo_world ''model.pt'' = Some demo_weights" by (simp add: demo_world_def)
  have 4: "demo_weights \<noteq> []" by (simp add: demo_weights_def)
  have 5: "models demo_world (model_name cfg) = Some demo_arch" using n by (simp add: demo_world_def)
  have 6: "fits demo_arch demo_weights (tensor_len (snd (last demo_weights)))
             (int (length (hd [[1 / 2], [1::real]])))"
    by (simp add: demo_arch_def demo_weights_def)
  show ?thesis
    unfolding decompress_success[OF 1 2 3 4 5 6]
    by (simp add: demo_arch_def demo_weights_def)
qed

text \<open>
  Claim C10 on a latent file of width one and the stored weights of the small
  architecture.
\<close>

theorem decompress_sizes_witness:
  "fst (decompress demo_world ''model.pt'' ''compressed.pickle'' default_config) =
     Inr [[1 / 2, 0], [1, 0]] \<and>
   (\<exists>M. load_model demo_world demo_arch ''model.pt'' 2 1 = Inr M \<and> z_dim M = 1 \<and>
        n_features M = 2 \<and> [[1 / 2, 0], [1, 0]] = decode demo_arch M [[1 / 2], [1]]) \<and>
   fst (decompress demo_world ''model.pt'' ''compressed.pickle''
          (default_config\<lparr>compression_ratio := 7\<rparr>)) = Inr [[1 / 2, 0], [1, 0]]"
proof -
  have n: "model_name default_config = ''george_SAE''" by (simp add: default_config_def)
  have r: "fst (decompress demo_world ''model.pt'' ''compressed.pickle'' default_config) =
     Inr [[1 / 2, 0], [1, 0]]"
    by (simp add: decompress_demo[OF n])
  from decompress_sizes[of demo_world "''model.pt''" "''compressed.pickle''" default_config] r
  obtain data sd A M where
    h: "latents demo_world ''compressed.pickle'' = Some data"
       "model_files demo_world ''model.pt'' = Some sd"
       "models demo_world (model_name default_config) = Some A"
       "load_model demo_world A ''model.pt'' (tensor_len (snd (last sd))) (int (length (hd data))) = Inr M"
       "z_dim M = int (length (hd data))" "n_features M = tensor_len (snd (last sd))"
       "[[1 / 2, 0], [1, 0]] = decode A M data"
    and q: "fst (decompress demo_world ''model.pt'' ''compressed.pickle''
          (default_config\<lparr>compression_ratio := 7\<rparr>)) =
        fst (decompress demo_world ''model.pt'' ''compressed.pickle'' default_config)"
    by blast
  from h(1) have d: "data = [[1 / 2], [1]]" by (simp add: demo_world_def)
  from h(2) have s: "sd = demo_weights" by (simp add: demo_world_def)
  from h(3) have a: "A = demo_arch" by (simp add: demo_world_def n)
  from h(4-7) have "load_model demo_world demo_arch ''model.pt'' 2 1 = Inr M \<and> z_dim M = 1 \<and>
        n_features M = 2 \<and> [[1 / 2, 0], [1, 0]] = decode demo_arch M [[1 / 2], [1]]"
    unfolding d s a by (simp add: demo_weights_def numeral_2_eq_2)
  with r q show ?thesis by auto
qed

text \<open>
  Claim C9 as stated fails: a latent matrix of width three is offered with a model file
  whose encoder has one row. \<^verbatim>\<open>decompress\<close> does not compare the width with anything;
  it asks for a model of \<open>z_dim = 3\<close>, and the failure is the loader's
  \<^verbatim>\<open>ArchitectureMismatchError\<close>, not a \<^verbatim>\<open>ShapeError\<close>.
\<close>

theorem decompress_wide_latent:
  "fst (decompress demo_world ''model.pt'' ''wide.pickle'' default_config) =
     Inl ArchitectureMismatchError \<and>
   fst (decompress demo_world ''model.pt'' ''wide.pickle'' default_config) \<noteq> Inl ShapeError"
  by (simp add: decompress_def data_loader_latent_def torch_load_def initialise_model_def
      load_model_def Let_def demo_world_def demo_arch_def demo_weights_def default_config_def)

text \<open>
  Claim C9, amended. \<^verbatim>\<open>decompress\<close> never fails with \<^verbatim>\<open>ShapeError\<close>. When it
  succeeds, its output is the decoding by a model whose \<open>z_dim\<close> is the width of the
  first row of the latent data and whose \<open>n_features\<close> is the length of the last entry
  of the stored weight dictionary; if the architecture's decoder produces rows of the
  model's \<open>n_features\<close>, every output row has that length.
\<close>

theorem decompress_no_shape_error:
  "fst (decompress w model_path input_path' cfg) \<noteq> Inl ShapeError \<and>
   (\<forall>out. fst (decompress w model_path input_path' cfg) = Inr out \<longrightarrow>
      (\<exists>data sd A.
         latents w input_path' = Some data \<and>
         model_files w model_path = Some sd \<and>
         models w (model_name cfg) = Some A \<and>
         out = decode A \<lparr> n_features = tensor_len (snd (last sd)),
                          z_dim = int (length (hd data)), weights = sd \<rparr> data \<and>
         ((\<forall>m rows. \<forall>r\<in>set (decode A m rows). length r = n_features m) \<longrightarrow>
          (\<forall>r\<in>set out. length r = tensor_len (snd (last sd))))))"
proof (intro conjI allI impI)
  show "fst (decompress w model_path input_path' cfg) \<noteq> Inl ShapeError"
    using decompress_errors[of w model_path input_path' cfg ShapeError] by auto
next
  fix out
  assume "fst (decompress w model_path input_path' cfg) = Inr out"
  from decompress_Inr[OF this] obtain data sd A where
    h: "latents w input_path' = Some data" "model_files w model_path = Some sd"
       "models w (model_name cfg) = Some A"
       "out = decode A \<lparr> n_features = tensor_len (snd (last sd)),
                            z_dim = int (length (hd data)), weights = sd \<rparr> data"
    by blast
  then show "\<exists>data sd A.
         latents w input_path' = Some data \<and>
         model_files w model_path = Some sd \<and>
         models w (model_name cfg) = Some A \<and>
         out = decode A \<lparr> n_features = tensor_len (snd (last sd)),
                          z_dim = int (length (hd data)), weights = sd \<rparr> data \<and>
         ((\<forall>m rows. \<forall>r\<in>set (decode A m rows). length r = n_features m) \<longrightarrow>
          (\<forall>r\<in>set out. length r = tensor_len (snd (last sd))))"
    by (intro exI[of _ data] exI[of _ sd] exI[of _ A]) auto
qed

lemma demo_decode_width:
  "\<forall>m rows. \<forall>r\<in>set (decode demo_arch m rows). length r = n_features m"
  by (auto simp: demo_arch_def)

text \<open>
  Claim C9, amended, on the small architecture, whose decoder produces rows of the
  model's \<open>n_features\<close>.
\<close>

theorem decompress_no_shape_error_witness:
  "fst (decompress demo_world ''model.pt'' ''compressed.pickle'' default_config) =
     Inr [[1 / 2, 0], [1, 0]] \<and>
   fst (decompress demo_world ''model.pt'' ''compressed.pickle'' default_config) \<noteq> Inl ShapeError \<and>
   tensor_len (snd (last demo_weights)) = 2 \<and>
   length [1 / 2, 0::real] = tensor_len (snd (last demo_weights)) \<and>
   length [1, 0::real] = tensor_len (snd (last demo_weights))"
proof -
  have n: "model_name default_config = ''george_SAE''" by (simp add: default_config_def)
  have r: "fst (decompress demo_world ''model.pt'' ''compressed.pickle'' default_config) =
     Inr [[1 / 2, 0], [1, 0]]"
    by (simp add: decompress_demo[OF n])
  note t = decompress_no_shape_error[of demo_world "''model.pt''" "''compressed.pickle''"
      default_config]
  from t r obtain data sd A where
    h: "model_files demo_world ''model.pt'' = Some sd"
       "models demo_world (model_name default_config) = Some A"
       "(\<forall>m rows. \<forall>r\<in>set (decode A m rows). length r = n_features m) \<longrightarrow>
          (\<forall>r\<in>set [[1 / 2, 0], [1, 0::real]]. length r = tensor_len (snd (last sd)))"
    by blast
  from h(1) have s: "sd = demo_weights" by (simp add: demo_world_def)
  from h(2) have a: "A = demo_arch" by (simp add: demo_world_def n)
  from h(3) demo_decode_width
  have w: "\<forall>r\<in>set [[1 / 2, 0], [1, 0::real]]. length r = tensor_len (snd (last demo_weights))"
    unfolding s a by blast
  from w have 1: "length [1 / 2, 0::real] = tensor_len (snd (last demo_weights))" by simp
  from w have 2: "length [1, 0::real] = tensor_len (snd (last demo_weights))" by simp
  from t have 3: "fst (decompress demo_world ''model.pt'' ''compressed.pickle'' default_config) \<noteq>
      Inl ShapeError" by blast
  have 4: "tensor_len (snd (last demo_weights)) = 2" by (simp add: demo_weights_def)
  from r 1 2 3 4 show ?thesis by blast
qed

section \<open>Which parameters \<^verbatim>\<open>compress\<close> scales with\<close>

lemma normalize_frame_fitted:
  assumes "d \<noteq> []" and "find_minmax d = Inr p" and "\<not> custom_norm cfg"
  shows "normalize_frame d cfg = Inr (apply_params d p)"
proof -
  from assms(2) have lp: "length p = length d"
    and pj: "\<And>j. j < length d \<Longrightarrow> column_minmax (d ! j) = Inr (p ! j)"
    by (simp_all add: find_minmax_def collect_map_Inr)
  have "dp_normalize (d ! j) cfg = Inr (apply_params d p ! j)" if "j < length d" for j
    using pj[OF that] that lp assms(3)
    by (simp add: dp_normalize_def apply_params_def case_prod_beta)
  then have "collect (map (\<lambda>c. dp_normalize c cfg) d) = Inr (apply_params d p)"
    by (simp add: collect_map_Inr apply_params_def lp)
  then show ?thesis using assms(1) by (simp add: normalize_frame_def apply_along_axis0_def)
qed

lemma normalize_frame_nonempty: "normalize_frame d cfg = Inr nd \<Longrightarrow> d \<noteq> []"
  by (auto simp: normalize_frame_def apply_along_axis0_def split: if_splits)

lemma process_Inr:
  assumes "fst (process w data_path cfg) = Inr (train_set, test_set, n, nf)"
  shows "\<exists>df nd. datasets w data_path = Some df \<and> find_minmax (cols df) = Inr nf \<and>
           normalize_frame (cols df) (cfg\<lparr>cleared_col_names := Some (get_columns df)\<rparr>) = Inr nd \<and>
           (train_set, test_set) = split w nd (test_size cfg) 1 \<and> n = length (get_columns df)"
  using assms
  by (auto simp: process_def data_loader_def Let_def split: option.splits sum.splits prod.splits)

lemma process_success:
  assumes "datasets w data_path = Some df" and "find_minmax (cols df) = Inr nf"
    and "normalize_frame (cols df) (cfg\<lparr>cleared_col_names := Some (get_columns df)\<rparr>) = Inr nd"
  shows "process w data_path cfg =
           (Inr (fst (split w nd (test_size cfg) 1), snd (split w nd (test_size cfg) 1),
                 length (get_columns df), nf),
            cfg\<lparr>cleared_col_names := Some (get_columns df)\<rparr>)"
  using assms
  by (simp add: process_def data_loader_def Let_def split: prod.splits)

text \<open>
  Claim C1, amended. With \<^verbatim>\<open>custom_norm\<close> off, what a successful \<^verbatim>\<open>compress\<close>
  encodes is its input dataset scaled with the parameters fitted from that same input
  dataset, and it returns the unscaled input next to it; a successful \<^verbatim>\<open>process\<close>
  returns the parameters fitted from the dataset it loaded and splits that dataset scaled
  with them.
\<close>

theorem compress_fits_its_own_input:
  "(\<forall>d p c b.
      datasets w input_path' = Some d \<and> find_minmax (cols d) = Inr p \<and> \<not> custom_norm cfg \<and>
      fst (compress w model_path input_path' cfg) = Inr (c, b) \<longrightarrow>
      (\<exists>A M z. models w (model_name cfg) = Some A \<and>
             latent_size (length (get_columns d)) (compression_ratio cfg) = Inr z \<and>
             load_model w A model_path (length (get_columns d)) z = Inr M \<and>
             c = encode A M (apply_params (cols d) p) \<and> b = cols d)) \<and>
   (\<forall>df train_set test_set n nf.
      datasets w data_path = Some df \<and> \<not> custom_norm cfg \<and>
      fst (process w data_path cfg) = Inr (train_set, test_set, n, nf) \<longrightarrow>
      find_minmax (cols df) = Inr nf \<and>
      (train_set, test_set) = split w (apply_params (cols df) nf) (test_size cfg) 1)"
proof (rule conjI; intro allI impI)
  fix d p c b
  assume h: "datasets w input_path' = Some d \<and> find_minmax (cols d) = Inr p \<and> \<not> custom_norm cfg \<and>
      fst (compress w model_path input_path' cfg) = Inr (c, b)"
  let ?cfg = "cfg\<lparr>cleared_col_names := Some (get_columns d)\<rparr>"
  from h compress_Inr[of w model_path input_path' cfg "(c, b)"]
  obtain nd A M z where
    n: "normalize_frame (cols d) ?cfg = Inr nd"
    and a: "models w (model_name cfg) = Some A"
    and z: "latent_size (length (get_columns d)) (compression_ratio cfg) = Inr z"
    and l: "load_model w A model_path (length (get_columns d)) z = Inr M"
    and o: "(c, b) = (encode A M nd, cols d)"
    by auto
  from h have "\<not> custom_norm ?cfg" by simp
  from normalize_frame_fitted[OF normalize_frame_nonempty[OF n] _ this, of p] h n
  have "nd = apply_params (cols d) p" by simp
  with a z l o show "\<exists>A M z. models w (model_name cfg) = Some A \<and>
             latent_size (length (get_columns d)) (compression_ratio cfg) = Inr z \<and>
             load_model w A model_path (length (get_columns d)) z = Inr M \<and>
             c = encode A M (apply_params (cols d) p) \<and> b = cols d"
    by auto
next
  fix df train_set test_set n nf
  assume h: "datasets w data_path = Some df \<and> \<not> custom_norm cfg \<and>
      fst (process w data_path cfg) = Inr (train_set, test_set, n, nf)"
  let ?cfg = "cfg\<lparr>cleared_col_names := Some (get_columns df)\<rparr>"
  from h process_Inr[of w data_path cfg train_set test_set n nf]
  obtain nd where f: "find_minmax (cols df) = Inr nf"
    and n: "normalize_frame (cols df) ?cfg = Inr nd"
    and s: "(train_set, test_set) = split w nd (test_size cfg) 1"
    by auto
  from h have "\<not> custom_norm ?cfg" by simp
  from normalize_frame_fitted[OF normalize_frame_nonempty[OF n] f this] n
  have "nd = apply_params (cols df) nf" by simp
  with f s show "find_minmax (cols df) = Inr nf \<and>
      (train_set, test_set) = split w (apply_params (cols df) nf) (test_size cfg) 1"
    by simp
qed

lemma find_minmax_big: "find_minmax (cols big_frame) = Inr [(0, 5), (1, 1)]"
  by (simp add: find_minmax_def column_minmax_def big_frame_def)

lemma find_minmax_derive: "find_minmax (cols derive_frame) = Inr [(0, 10), (1, 2)]"
  by (simp add: find_minmax_def column_minmax_def derive_frame_def)

lemma process_demo:
  "process demo_world ''derive.pickle'' default_config =
     (Inr ([[0, 1], [0, 1]], [], 2, [(0, 10), (1, 2)]),
      default_config\<lparr>cleared_col_names := Some [''pt'', ''eta'']\<rparr>)"
proof -
  have 1: "datasets demo_world ''derive.pickle'' = Some derive_frame" by (simp add: demo_world_def)
  have 3: "normalize_frame (cols derive_frame)
             (default_config\<lparr>cleared_col_names := Some (get_columns derive_frame)\<rparr>) =
           Inr [[0, 1], [0, 1]]"
    by (simp add: normalize_frame_def apply_along_axis0_def dp_normalize_def column_minmax_def
        derive_frame_def default_config_def)
  show ?thesis
    unfolding process_success[OF 1 find_minmax_derive 3]
    by (simp add: demo_world_def get_columns_def derive_frame_def)
qed

text \<open>
  Claim C1 as stated fails: \<^verbatim>\<open>process\<close> fits \<open>(0, 10)\<close> and \<open>(1, 2)\<close> on the
  derive-time dataset; \<^verbatim>\<open>compress\<close> on another dataset does not encode that dataset
  scaled with these stored parameters, but scaled with its own minimum and range.
\<close>

theorem compress_ignores_derive_params:
  "fst (process demo_world ''derive.pickle'' default_config) =
     Inr ([[0, 1], [0, 1]], [], 2, [(0, 10), (1, 2)]) \<and>
   fst (compress demo_world ''model.pt'' ''big.pickle'' default_config) =
     Inr ([[0, 1]], cols big_frame) \<and>
   encode demo_arch \<lparr> n_features = 2, z_dim = 1, weights = demo_weights \<rparr>
     (apply_params (cols big_frame) [(0, 10), (1, 2)]) = [[0, 1 / 2]] \<and>
   fst (compress demo_world ''model.pt'' ''big.pickle'' default_config) \<noteq>
     Inr (encode demo_arch \<lparr> n_features = 2, z_dim = 1, weights = demo_weights \<rparr>
            (apply_params (cols big_frame) [(0, 10), (1, 2)]), cols big_frame)"
  by (simp add: process_demo compress_demo)
     (simp add: demo_arch_def apply_params_def big_frame_def)

text \<open>
  Claim C1, amended, on the two datasets of the small world.
\<close>

theorem compress_fits_its_own_input_witness:
  "datasets demo_world ''big.pickle'' = Some big_frame \<and>
   find_minmax (cols big_frame) = Inr [(0, 5), (1, 1)] \<and>
   \<not> custom_norm default_config \<and>
   fst (compress demo_world ''model.pt'' ''big.pickle'' default_config) =
     Inr ([[0, 1]], cols big_frame) \<and>
   (\<exists>M. [[0, 1]] = encode demo_arch M (apply_params (cols big_frame) [(0, 5), (1, 1)])) \<and>
   datasets demo_world ''derive.pickle'' = Some derive_frame \<and>
   fst (process demo_world ''derive.pickle'' default_config) =
     Inr ([[0, 1], [0, 1]], [], 2, [(0, 10), (1, 2)]) \<and>
   find_minmax (cols derive_frame) = Inr [(0, 10), (1, 2)] \<and>
   ([[0, 1], [0, 1]], []) =
     split demo_world (apply_params (cols derive_frame) [(0, 10), (1, 2)])
       (test_size default_config) 1"
proof -
  have 1: "datasets demo_world ''big.pickle'' = Some big_frame" by (simp add: demo_world_def)
  have 2: "\<not> custom_norm default_config" by (simp add: default_config_def)
  have 3: "fst (compress demo_world ''model.pt'' ''big.pickle'' default_config) =
     Inr ([[0, 1]], cols big_frame)"
    by (simp add: compress_demo big_frame_def)
  have 4: "datasets demo_world ''derive.pickle'' = Some derive_frame" by (simp add: demo_world_def)
  have 5: "fst (process demo_world ''derive.pickle'' default_config) =
     Inr ([[0, 1], [0, 1]], [], 2, [(0, 10), (1, 2)])"
    by (simp add: process_demo)
  have m: "models demo_world (model_name default_config) = Some demo_arch"
    by (simp add: demo_world_def default_config_def)
  note t = compress_fits_its_own_input[of demo_world "''big.pickle''" default_config "''model.pt''"
      "''derive.pickle''"]
  from t 1 2 3 find_minmax_big
  have "\<exists>A M. models demo_world (model_name default_config) = Some A \<and>
          [[0, 1]] = encode A M (apply_params (cols big_frame) [(0, 5), (1, 1)])"
    by blast
  with m have a: "\<exists>M. [[0, 1]] = encode demo_arch M (apply_params (cols big_frame) [(0, 5), (1, 1)])"
    by auto
  from t 4 2 5
  have b: "([[0, 1], [0, 1]], []) =
     split demo_world (apply_params (cols derive_frame) [(0, 10), (1, 2)])
       (test_size default_config) 1"
    by blast
  from 1 2 3 4 5 a b find_minmax_big find_minmax_derive show ?thesis by blast
qed

section \<open>The two phases of an epoch\<close>

lemma validate_batches_foldl:
  "validate_batches T reg dl m r =
     foldl fadd r (map (\<lambda>x. loss T (params m) x (forward T (params m) (training m) x) reg) dl)"
  by (induction dl arbitrary: r) (simp_all add: Let_def)

lemma fit_batches_training:
  "training (fst (fit_batches T reg dl m opt r)) = training m"
  by (induction dl arbitrary: m opt r) (simp_all add: Let_def split: prod.splits)

lemma validate_batches_descend:
  "validate_batches (T\<lparr>descend := d\<rparr>) reg dl m r = validate_batches T reg dl m r"
  by (induction dl arbitrary: r) (simp_all add: Let_def)

text \<open>
  Claim C7. \<^verbatim>\<open>validate\<close> returns the model with the parameters it was given (and
  with the training flag off); it is the same whatever the backward pass and the
  optimiser step would do, since it takes neither; and its epoch loss is the mean, over
  the batches, of \<^verbatim>\<open>model.loss\<close> on the batch, its reconstruction and
  \<^verbatim>\<open>reg_param\<close>: the same call, regularisation weight included, that \<^verbatim>\<open>fit\<close>
  makes for a batch.
\<close>

theorem validate_leaves_parameters:
  "params (snd (validate T m test_dl reg)) = params m \<and>
   training (snd (validate T m test_dl reg)) = False \<and>
   validate (T\<lparr>descend := d\<rparr>) m test_dl reg = validate T m test_dl reg \<and>
   fst (validate T m test_dl reg) =
     fdiv_count
       (foldl fadd (Fin 0)
          (map (\<lambda>x. loss T (params m) x (forward T (params m) False x) reg) test_dl))
       (length test_dl) \<and>
   fst (fit T m [x] reg opt) =
     fdiv_count (fadd (Fin 0) (loss T (params m) x (forward T (params m) True x) reg)) 1"
proof (intro conjI)
  show "params (snd (validate T m test_dl reg)) = params m"
    by (simp add: validate_def Let_def)
  show "training (snd (validate T m test_dl reg)) = False"
    by (simp add: validate_def Let_def)
  show "validate (T\<lparr>descend := d\<rparr>) m test_dl reg = validate T m test_dl reg"
    by (simp add: validate_def validate_batches_descend)
  show "fst (validate T m test_dl reg) =
     fdiv_count
       (foldl fadd (Fin 0)
          (map (\<lambda>x. loss T (params m) x (forward T (params m) False x) reg) test_dl))
       (length test_dl)"
    by (simp add: validate_def validate_batches_foldl Let_def)
  obtain o1 p1 where "descend T opt (params m) x reg = (o1, p1)" by fastforce
  then show "fst (fit T m [x] reg opt) =
     fdiv_count (fadd (Fin 0) (loss T (params m) x (forward T (params m) True x) reg)) 1"
    by (simp add: fit_def Let_def)
qed

text \<open>
  Claim C7 on the small network with its weight at \<open>2\<close>.
\<close>

theorem validate_leaves_parameters_witness:
  "params (snd (validate demo_torch \<lparr> params = 2, training = True \<rparr> [1, 3] 0)) = 2 \<and>
   fst (validate demo_torch \<lparr> params = 2, training = True \<rparr> [1, 3] 0) = Inr (Fin 5) \<and>
   fst (fit demo_torch \<lparr> params = 2, training = False \<rparr> [1] 0 0) = Inr (Fin 1)"
  using validate_leaves_parameters[of demo_torch "\<lparr> params = 2, training = True \<rparr>" "[1, 3]" 0
      "descend demo_torch" 1 0]
    validate_leaves_parameters[of demo_torch "\<lparr> params = 2, training = False \<rparr>" "[]" 0
      "descend demo_torch" 1 0]
  by (simp add: demo_torch_def fdiv_count_def)

lemma fadd_nonfinite: "\<not> is_finite a \<or> \<not> is_finite b \<Longrightarrow> \<not> is_finite (fadd a b)"
  by (cases a; cases b) simp_all

lemma foldl_fadd_nonfinite:
  "\<not> is_finite r \<or> (\<exists>v\<in>set vs. \<not> is_finite v) \<Longrightarrow> \<not> is_finite (foldl fadd r vs)"
proof (induction vs arbitrary: r)
  case Nil
  then show ?case by simp
next
  case (Cons v vs)
  show ?case
  proof (cases "\<not> is_finite r \<or> \<not> is_finite v")
    case True
    then have "\<not> is_finite (fadd r v)" by (rule fadd_nonfinite)
    then show ?thesis using Cons.IH[of "fadd r v"] by simp
  next
    case False
    with Cons.prems have "\<exists>v\<in>set vs. \<not> is_finite v" by auto
    then show ?thesis using Cons.IH[of "fadd r v"] by simp
  qed
qed

lemma fdiv_count_cases:
  "fdiv_count x n = Inl e \<Longrightarrow> e = ZeroDivisionError \<and> n = 0"
  by (auto simp: fdiv_count_def split: if_splits)

lemma fdiv_count_nonfinite:
  "\<not> is_finite x \<Longrightarrow> 0 < n \<Longrightarrow> fdiv_count x n = Inr x"
  by (cases x) (simp_all add: fdiv_count_def)

lemma fit_fst:
  "fst (fit T m dl reg opt) =
     fdiv_count (snd (snd (fit_batches T reg dl (m\<lparr>training := True\<rparr>) opt (Fin 0)))) (length dl)"
  by (simp add: fit_def Let_def split: prod.splits)

lemma validate_fst:
  "fst (validate T m dl reg) =
     fdiv_count
       (foldl fadd (Fin 0) (map (\<lambda>x. loss T (params m) x (forward T (params m) False x) reg) dl))
       (length dl)"
  by (simp add: validate_def validate_batches_foldl Let_def)

lemma fit_error: "fst (fit T m dl reg opt) = Inl e \<Longrightarrow> e = ZeroDivisionError"
  unfolding fit_fst by (auto dest: fdiv_count_cases)

lemma validate_error: "fst (validate T m dl reg) = Inl e \<Longrightarrow> e = ZeroDivisionError"
  unfolding validate_fst by (auto dest: fdiv_count_cases)

lemma fit_batches_append:
  "fit_batches T reg (dl1 @ dl2) m opt r =
     (case fit_batches T reg dl1 m opt r of (m1, o1, r1) \<Rightarrow> fit_batches T reg dl2 m1 o1 r1)"
  by (induction dl1 arbitrary: m opt r) (simp_all add: Let_def split: prod.splits)

lemma fit_batches_keeps_nonfinite:
  "\<not> is_finite r \<Longrightarrow> \<not> is_finite (snd (snd (fit_batches T reg dl m opt r)))"
proof (induction dl arbitrary: m opt r)
  case Nil
  then show ?case by simp
next
  case (Cons x dl)
  obtain o1 p1 where d: "descend T opt (params m) x reg = (o1, p1)" by fastforce
  from Cons.prems
  have "\<not> is_finite (fadd r (loss T (params m) x (forward T (params m) (training m) x) reg))"
    by (intro fadd_nonfinite) simp
  then show ?case using Cons.IH by (simp add: Let_def d)
qed

lemma fit_batches_nonfinite_at:
  assumes "\<not> is_finite
             (loss T (params (fst (fit_batches T reg dl1 m opt r))) x
                (forward T (params (fst (fit_batches T reg dl1 m opt r))) (training m) x) reg)"
  shows "\<not> is_finite (snd (snd (fit_batches T reg (dl1 @ x # dl2) m opt r)))"
proof -
  obtain m1 o1 r1 where f: "fit_batches T reg dl1 m opt r = (m1, o1, r1)"
    by (cases "fit_batches T reg dl1 m opt r") auto
  have t: "training m1 = training m" using fit_batches_training[of T reg dl1 m opt r] f by simp
  obtain o2 p2 where d: "descend T o1 (params m1) x reg = (o2, p2)" by fastforce
  let ?l = "loss T (params m1) x (forward T (params m1) (training m1) x) reg"
  from assms f t have "\<not> is_finite ?l" by simp
  then have "\<not> is_finite (fadd r1 ?l)" by (intro fadd_nonfinite) simp
  then have "\<not> is_finite (snd (snd (fit_batches T reg dl2 (m1\<lparr>params := p2\<rparr>) o2 (fadd r1 ?l))))"
    by (rule fit_batches_keeps_nonfinite)
  then show ?thesis by (simp add: fit_batches_append f Let_def d)
qed

text \<open>
  Claim C3, amended. Neither \<^verbatim>\<open>fit\<close> nor \<^verbatim>\<open>validate\<close> raises
  \<^verbatim>\<open>DivergenceError\<close>. If a batch of the validation loader yields a non-finite loss,
  \<^verbatim>\<open>validate\<close> returns normally with a non-finite epoch loss; if a batch of the
  training loader yields a non-finite loss under the parameters the model has when the
  batch is reached, \<^verbatim>\<open>fit\<close> returns normally with a non-finite epoch loss.
\<close>

theorem nonfinite_loss_is_returned:
  "fst (fit T m train_dl reg opt) \<noteq> Inl DivergenceError \<and>
   fst (validate T m test_dl reg) \<noteq> Inl DivergenceError \<and>
   ((\<exists>x\<in>set test_dl. \<not> is_finite (loss T (params m) x (forward T (params m) False x) reg)) \<longrightarrow>
      (\<exists>l. fst (validate T m test_dl reg) = Inr l \<and> \<not> is_finite l)) \<and>
   ((\<exists>dl1 x dl2 p.
       train_dl = dl1 @ x # dl2 \<and>
       p = params (fst (fit_batches T reg dl1 (m\<lparr>training := True\<rparr>) opt (Fin 0))) \<and>
       \<not> is_finite (loss T p x (forward T p True x) reg)) \<longrightarrow>
      (\<exists>l. fst (fit T m train_dl reg opt) = Inr l \<and> \<not> is_finite l))"
proof (intro conjI impI)
  show "fst (fit T m train_dl reg opt) \<noteq> Inl DivergenceError"
    using fit_error[of T m train_dl reg opt DivergenceError] by auto
  show "fst (validate T m test_dl reg) \<noteq> Inl DivergenceError"
    using validate_error[of T m test_dl reg DivergenceError] by auto
next
  assume h: "\<exists>x\<in>set test_dl. \<not> is_finite (loss T (params m) x (forward T (params m) False x) reg)"
  let ?s = "foldl fadd (Fin 0)
     (map (\<lambda>x. loss T (params m) x (forward T (params m) False x) reg) test_dl)"
  from h have "\<not> is_finite ?s" by (intro foldl_fadd_nonfinite) auto
  moreover from h have "0 < length test_dl" by auto
  ultimately have "fst (validate T m test_dl reg) = Inr ?s \<and> \<not> is_finite ?s"
    by (simp add: validate_fst fdiv_count_nonfinite)
  then show "\<exists>l. fst (validate T m test_dl reg) = Inr l \<and> \<not> is_finite l" by blast
next
  assume "\<exists>dl1 x dl2 p.
       train_dl = dl1 @ x # dl2 \<and>
       p = params (fst (fit_batches T reg dl1 (m\<lparr>training := True\<rparr>) opt (Fin 0))) \<and>
       \<not> is_finite (loss T p x (forward T p True x) reg)"
  then obtain dl1 x dl2 where t: "train_dl = dl1 @ x # dl2"
    and n: "\<not> is_finite
             (loss T (params (fst (fit_batches T reg dl1 (m\<lparr>training := True\<rparr>) opt (Fin 0)))) x
                (forward T (params (fst (fit_batches T reg dl1 (m\<lparr>training := True\<rparr>) opt (Fin 0))))
                   True x) reg)"
    by blast
  let ?s = "snd (snd (fit_batches T reg train_dl (m\<lparr>training := True\<rparr>) opt (Fin 0)))"
  from fit_batches_nonfinite_at[of T reg dl1 "m\<lparr>training := True\<rparr>" opt "Fin 0" x dl2] n
  have "\<not> is_finite ?s" unfolding t by simp
  moreover from t have "0 < length train_dl" by simp
  ultimately have "fst (fit T m train_dl reg opt) = Inr ?s \<and> \<not> is_finite ?s"
    by (simp add: fit_fst fdiv_count_nonfinite)
  then show "\<exists>l. fst (fit T m train_dl reg opt) = Inr l \<and> \<not> is_finite l" by blast
qed

text \<open>
  Claim C3, amended, on the small network with its weight at \<open>100\<close>, whose loss on
  the batch \<open>1\<close> overflows.
\<close>

theorem nonfinite_loss_is_returned_witness:
  "(\<exists>x\<in>set [1::real]. \<not> is_finite (loss demo_torch 100 x (forward demo_torch 100 False x) 0)) \<and>
   (\<exists>l. fst (validate demo_torch \<lparr> params = 100, training = False \<rparr> [1] 0) = Inr l \<and>
        \<not> is_finite l) \<and>
   \<not> is_finite (loss demo_torch 100 1 (forward demo_torch 100 True 1) 0) \<and>
   (\<exists>l. fst (fit demo_torch \<lparr> params = 100, training = False \<rparr> [1] 0 0) = Inr l \<and>
        \<not> is_finite l)"
proof -
  have n: "\<not> is_finite (loss demo_torch 100 1 (forward demo_torch 100 b 1) 0)" for b
    by (simp add: demo_torch_def)
  have v: "\<exists>x\<in>set [1::real]. \<not> is_finite (loss demo_torch 100 x (forward demo_torch 100 False x) 0)"
    using n by simp
  have f: "\<exists>dl1 x dl2 p.
       [1::real] = dl1 @ x # dl2 \<and>
       p = params (fst (fit_batches demo_torch 0 dl1
             (\<lparr> params = 100, training = False \<rparr>\<lparr>training := True\<rparr>) (0::real) (Fin 0))) \<and>
       \<not> is_finite (loss demo_torch p x (forward demo_torch p True x) 0)"
    by (rule exI[of _ "[]"], rule exI[of _ 1], rule exI[of _ "[]"], rule exI[of _ 100])
       (simp add: n)
  from nonfinite_loss_is_returned[of demo_torch "\<lparr> params = 100, training = False \<rparr>" "[1]" 0 0 "[1]"]
    v f n
  show ?thesis by simp
qed

text \<open>
  Claim C3 as stated fails: with the weight at \<open>100\<close> the loss of the single batch is
  infinite, and \<^verbatim>\<open>fit\<close> and \<^verbatim>\<open>validate\<close> return it as the epoch loss.
\<close>

theorem fit_returns_infinite_loss:
  "fst (fit demo_torch \<lparr> params = 100, training = False \<rparr> [1] 0 0) = Inr PInf \<and>
   fst (fit demo_torch \<lparr> params = 100, training = False \<rparr> [1] 0 0) \<noteq> Inl DivergenceError \<and>
   fst (validate demo_torch \<lparr> params = 100, training = False \<rparr> [1] 0) = Inr PInf \<and>
   fst (validate demo_torch \<lparr> params = 100, training = False \<rparr> [1] 0) \<noteq> Inl DivergenceError"
  by (simp add: fit_def validate_def demo_torch_def fdiv_count_def)

section \<open>The epoch loop\<close>

lemma epoch_body_Inr:
  assumes "epoch_body T g cfg tdl vdl s = Inr (s', brk)"
  shows "\<exists>tv vv.
           fst (fit T (model s) tdl (reg_param cfg) (optimizer s)) = Inr tv \<and>
           fst (validate T (fst (snd (fit T (model s) tdl (reg_param cfg) (optimizer s)))) vdl
                  (reg_param cfg)) = Inr vv \<and>
           train_loss s' = train_loss s @ [tv] \<and>
           val_loss s' = val_loss s @ [vv] \<and>
           length (mse_loss_fit s') = Suc (length (mse_loss_fit s)) \<and>
           length (regularizer_loss_fit s') = Suc (length (regularizer_loss_fit s)) \<and>
           (early_stopping cfg \<longrightarrow>
              early_stopping' s' = stop_call T (early_stopping' s) vv \<and>
              brk = stop_flag T (early_stopping' s')) \<and>
           (\<not> early_stopping cfg \<longrightarrow> \<not> brk)"
  using assms
  by (auto simp: epoch_body_def Let_def split: prod.splits sum.splits option.splits if_splits)

lemma train_loop_log:
  assumes "train_loop T g cfg tdl vdl es s = Inr s'"
  shows "\<exists>ts vs.
           train_loss s' = train_loss s @ ts \<and> val_loss s' = val_loss s @ vs \<and>
           length ts = length vs \<and> length vs \<le> length es \<and>
           length (mse_loss_fit s') = length (mse_loss_fit s) + length vs \<and>
           length (regularizer_loss_fit s') = length (regularizer_loss_fit s) + length vs \<and>
           (\<not> early_stopping cfg \<longrightarrow> length vs = length es) \<and>
           (early_stopping cfg \<longrightarrow>
              (\<forall>k. 0 < k \<and> k \<le> length vs \<and>
                   stop_flag T (foldl (stop_call T) (early_stopping' s) (take k vs)) \<longrightarrow>
                   length vs = k) \<and>
              (length vs < length es \<longrightarrow>
                 stop_flag T (foldl (stop_call T) (early_stopping' s) vs)))"
  using assms
proof (induction es arbitrary: s)
  case Nil
  then show ?case by simp
next
  case (Cons e es)
  from Cons.prems obtain s1 brk where
    b: "epoch_body T g cfg (tdl e) vdl s = Inr (s1, brk)"
    and r: "(if brk then Inr s1 else train_loop T g cfg tdl vdl es s1) = Inr s'"
    by (auto split: sum.splits)
  from epoch_body_Inr[OF b] obtain tv vv where
    t1: "train_loss s1 = train_loss s @ [tv]" and v1: "val_loss s1 = val_loss s @ [vv]"
    and m1: "length (mse_loss_fit s1) = Suc (length (mse_loss_fit s))"
    and r1: "length (regularizer_loss_fit s1) = Suc (length (regularizer_loss_fit s))"
    and e1: "early_stopping cfg \<longrightarrow>
              early_stopping' s1 = stop_call T (early_stopping' s) vv \<and>
              brk = stop_flag T (early_stopping' s1)"
    and n1: "\<not> early_stopping cfg \<longrightarrow> \<not> brk"
    by blast
  show ?case
  proof (cases brk)
    case True
    with r have s': "s' = s1" by simp
    from True n1 have es: "early_stopping cfg" by blast
    have "\<forall>k. 0 < k \<and> k \<le> length [vv] \<and>
             stop_flag T (foldl (stop_call T) (early_stopping' s) (take k [vv])) \<longrightarrow>
             length [vv] = k"
      by auto
    moreover have "stop_flag T (foldl (stop_call T) (early_stopping' s) [vv])"
      using e1 es True by auto
    ultimately have "early_stopping cfg \<longrightarrow>
              (\<forall>k. 0 < k \<and> k \<le> length [vv] \<and>
                   stop_flag T (foldl (stop_call T) (early_stopping' s) (take k [vv])) \<longrightarrow>
                   length [vv] = k) \<and>
              (length [vv] < length (e # es) \<longrightarrow>
                 stop_flag T (foldl (stop_call T) (early_stopping' s) [vv]))"
      by blast
    moreover have "train_loss s' = train_loss s @ [tv]" "val_loss s' = val_loss s @ [vv]"
      "length [tv] = length [vv]" "length [vv] \<le> length (e # es)"
      "length (mse_loss_fit s') = length (mse_loss_fit s) + length [vv]"
      "length (regularizer_loss_fit s') = length (regularizer_loss_fit s) + length [vv]"
      "\<not> early_stopping cfg \<longrightarrow> length [vv] = length (e # es)"
      using t1 v1 m1 r1 es unfolding s' by simp_all
    ultimately show ?thesis by blast
  next
    case False
    with r have "train_loop T g cfg tdl vdl es s1 = Inr s'" by simp
    from Cons.IH[OF this] obtain ts vs where
      ih: "train_loss s' = train_loss s1 @ ts" "val_loss s' = val_loss s1 @ vs"
          "length ts = length vs" "length vs \<le> length es"
          "length (mse_loss_fit s') = length (mse_loss_fit s1) + length vs"
          "length (regularizer_loss_fit s') = length (regularizer_loss_fit s1) + length vs"
          "\<not> early_stopping cfg \<longrightarrow> length vs = length es"
          "early_stopping cfg \<longrightarrow>
              (\<forall>k. 0 < k \<and> k \<le> length vs \<and>
                   stop_flag T (foldl (stop_call T) (early_stopping' s1) (take k vs)) \<longrightarrow>
                   length vs = k) \<and>
              (length vs < length es \<longrightarrow>
                 stop_flag T (foldl (stop_call T) (early_stopping' s1) vs))"
      by blast
    have stop: "(\<forall>k. 0 < k \<and> k \<le> length (vv # vs) \<and>
                   stop_flag T (foldl (stop_call T) (early_stopping' s) (take k (vv # vs))) \<longrightarrow>
                   length (vv # vs) = k) \<and>
              (length (vv # vs) < length (e # es) \<longrightarrow>
                 stop_flag T (foldl (stop_call T) (early_stopping' s) (vv # vs)))"
      if es: "early_stopping cfg"
    proof (intro conjI allI impI)
      from e1 es have eq: "early_stopping' s1 = stop_call T (early_stopping' s) vv"
        and nf: "\<not> stop_flag T (stop_call T (early_stopping' s) vv)"
        using False by auto
      fix k
      assume k: "0 < k \<and> k \<le> length (vv # vs) \<and>
                 stop_flag T (foldl (stop_call T) (early_stopping' s) (take k (vv # vs)))"
      then obtain k' where k': "k = Suc k'" by (cases k) auto
      with k nf have "0 < k'" by (cases k') auto
      moreover from k k' have "k' \<le> length vs" by simp
      moreover from k k' eq
      have "stop_flag T (foldl (stop_call T) (early_stopping' s1) (take k' vs))" by simp
      ultimately have "length vs = k'" using ih(8) es by blast
      then show "length (vv # vs) = k" using k' by simp
    next
      from e1 es have eq: "early_stopping' s1 = stop_call T (early_stopping' s) vv" by simp
      assume "length (vv # vs) < length (e # es)"
      then have "length vs < length es" by simp
      with ih(8) es have "stop_flag T (foldl (stop_call T) (early_stopping' s1) vs)" by blast
      then show "stop_flag T (foldl (stop_call T) (early_stopping' s) (vv # vs))"
        using eq by simp
    qed
    have "train_loss s' = train_loss s @ (tv # ts)" "val_loss s' = val_loss s @ (vv # vs)"
      "length (tv # ts) = length (vv # vs)" "length (vv # vs) \<le> length (e # es)"
      "length (mse_loss_fit s') = length (mse_loss_fit s) + length (vv # vs)"
      "length (regularizer_loss_fit s') = length (regularizer_loss_fit s) + length (vv # vs)"
      "\<not> early_stopping cfg \<longrightarrow> length (vv # vs) = length (e # es)"
      using t1 v1 m1 r1 ih(1-7) by simp_all
    with stop show ?thesis by blast
  qed
qed

lemma train_written:
  assumes "written (train T g m0 tdl vdl x cfg) = Some (tc, vc, mc, rc)"
  shows "\<exists>s. train_loop T g cfg tdl vdl [0..<nat (epochs cfg)]
               \<lparr> model = m0, optimizer = adam T (params m0) (lr cfg),
                 early_stopping' = stop_new T (patience cfg) (min_delta cfg),
                 lr_scheduler' = sched_new T (adam T (params m0) (lr cfg)) (patience cfg),
                 train_loss = [], val_loss = [], mse_loss_fit = [],
                 regularizer_loss_fit = [] \<rparr> = Inr s \<and>
             tc = train_loss s \<and> vc = val_loss s \<and> mc = mse_loss_fit s \<and>
             rc = regularizer_loss_fit s \<and>
             returned (train T g m0 tdl vdl x cfg) =
               (case model_from_fit g of
                  None \<Rightarrow> Inl (NameError ''model_from_fit'')
                | Some m \<Rightarrow> Inr (x, forward T (params (model s)) (training (model s)) x, m))"
  using assms
  by (auto simp: train_def Let_def split: option.splits sum.splits)

text \<open>
  Claim C6. Let early stopping be enabled and let \<^verbatim>\<open>train\<close> reach the line that
  writes the loss columns; the validation column has one entry per executed epoch, and
  the policy object has observed exactly these entries in order. If the policy's flag is
  set after it observed the validation loss of epoch \<open>k\<close>, the column has exactly \<open>k\<close>
  entries: no epoch was executed after \<open>k\<close>. And if fewer epochs were executed than
  configured, the flag is set at the end of the run.
\<close>

theorem early_stop_ends_training:
  assumes "early_stopping cfg"
    and "written (train T g m0 train_dl valid_dl x cfg) = Some (tc, vc, mc, rc)"
  shows "length vc \<le> nat (epochs cfg) \<and>
         (\<forall>k. 0 < k \<and> k \<le> length vc \<and>
              stop_flag T (foldl (stop_call T) (stop_new T (patience cfg) (min_delta cfg)) (take k vc))
              \<longrightarrow> length vc = k) \<and>
         (length vc < nat (epochs cfg) \<longrightarrow>
            stop_flag T (foldl (stop_call T) (stop_new T (patience cfg) (min_delta cfg)) vc))"
proof -
  from train_written[OF assms(2)] obtain s where
    l: "train_loop T g cfg train_dl valid_dl [0..<nat (epochs cfg)]
               \<lparr> model = m0, optimizer = adam T (params m0) (lr cfg),
                 early_stopping' = stop_new T (patience cfg) (min_delta cfg),
                 lr_scheduler' = sched_new T (adam T (params m0) (lr cfg)) (patience cfg),
                 train_loss = [], val_loss = [], mse_loss_fit = [],
                 regularizer_loss_fit = [] \<rparr> = Inr s"
    and v: "vc = val_loss s"
    by blast
  from train_loop_log[OF l] assms(1) v show ?thesis by simp
qed

section \<open>Runs of the small network\<close>

lemma stalled_fields:
  "epochs stalled_config = 3" "patience stalled_config = 1" "lr stalled_config = 0"
  "reg_param stalled_config = 0" "latent_space_size stalled_config = Some 1"
  "early_stopping stalled_config" "\<not> lr_scheduler stalled_config" "min_delta stalled_config = 0"
  by (simp_all add: stalled_config_def default_config_def)

lemma demo_fit:
  "params m = 2 \<Longrightarrow> fit demo_torch m [1] 0 0 = (Inr (Fin 1), \<lparr> params = 2, training = True \<rparr>, 0)"
  by (cases m) (simp add: fit_def demo_torch_def fdiv_count_def)

lemma demo_validate:
  "params m = 2 \<Longrightarrow> validate demo_torch m [1] 0 = (Inr (Fin 1), \<lparr> params = 2, training = False \<rparr>)"
  by (cases m) (simp add: validate_def demo_torch_def fdiv_count_def)

lemma demo_epoch_unbound:
  "params (model s) = 2 \<Longrightarrow> optimizer s = 0 \<Longrightarrow>
   epoch_body demo_torch (training_globals :: (fval, real module) namespace) stalled_config [1] [1] s =
     Inl (NameError ''mse_loss_fit1'')"
  by (simp add: epoch_body_def demo_fit demo_validate stalled_fields training_globals_def)

lemma demo_epoch_bound:
  "params (model s) = 2 \<Longrightarrow> optimizer s = 0 \<Longrightarrow>
   epoch_body demo_torch bound_globals stalled_config [1] [1] s =
     Inr (s\<lparr> model := \<lparr> params = 2, training = False \<rparr>,
             train_loss := train_loss s @ [Fin 1],
             val_loss := val_loss s @ [Fin 1],
             mse_loss_fit := mse_loss_fit s @ [Fin 0],
             regularizer_loss_fit := regularizer_loss_fit s @ [Fin 0],
             early_stopping' := stopper_call (early_stopping' s) (Fin 1) \<rparr>,
          early_stop (stopper_call (early_stopping' s) (Fin 1)))"
  by (simp add: epoch_body_def demo_fit demo_validate stalled_fields bound_globals_def Let_def)
     (simp add: demo_torch_def)

lemma stopper_first: "stopper_call (stopper_new 1 0) (Fin 1) =
   \<lparr> stopper_patience = 1, stopper_min_delta = 0, best_loss = Fin 1, counter = 0,
     early_stop = False \<rparr>"
  by (simp add: stopper_call_def stopper_new_def fsub_def)

lemma stopper_second:
  "stopper_call \<lparr> stopper_patience = 1, stopper_min_delta = 0, best_loss = Fin 1, counter = 0,
     early_stop = False \<rparr> (Fin 1) =
   \<lparr> stopper_patience = 1, stopper_min_delta = 0, best_loss = Fin 1, counter = 1,
     early_stop = True \<rparr>"
  by (simp add: stopper_call_def fsub_def)

lemma three_epochs: "[0..<(3::nat)] = [0, 1, 2]"
  by code_simp

lemma demo_init:
  "adam demo_torch p r = r" "stop_new demo_torch = stopper_new" "sched_new demo_torch r q = 0"
  by (simp_all add: demo_torch_def)

lemma demo_train_unbound:
  "train demo_torch (training_globals :: (fval, real module) namespace)
     \<lparr> params = 2, training = False \<rparr> (\<lambda>epoch. [1]) [1] 1 stalled_config =
   \<lparr> written = None, returned = Inl (NameError ''mse_loss_fit1'') \<rparr>"
  by (simp add: train_def stalled_fields three_epochs demo_init demo_epoch_unbound Let_def)

lemma demo_train_bound:
  "train demo_torch bound_globals \<lparr> params = 2, training = False \<rparr> (\<lambda>epoch. [1]) [1] 1
     stalled_config =
   \<lparr> written = Some ([Fin 1, Fin 1], [Fin 1, Fin 1], [Fin 0, Fin 0], [Fin 0, Fin 0]),
     returned = Inr (1, 2, \<lparr> params = 1, training = True \<rparr>) \<rparr>"
  by (simp add: train_def stalled_fields three_epochs demo_init demo_epoch_bound stopper_first
      stopper_second Let_def)
     (simp add: demo_torch_def bound_globals_def)

text \<open>
  Claim C6 on a run of three configured epochs that stalls: the policy does not signal
  after the first epoch, signals after the second, and the third is not executed.
\<close>

theorem early_stop_ends_training_witness:
  "early_stopping stalled_config \<and>
   written (train demo_torch bound_globals \<lparr> params = 2, training = False \<rparr> (\<lambda>epoch. [1]) [1] 1
              stalled_config) =
     Some ([Fin 1, Fin 1], [Fin 1, Fin 1], [Fin 0, Fin 0], [Fin 0, Fin 0]) \<and>
   nat (epochs stalled_config) = 3 \<and>
   \<not> stop_flag demo_torch (foldl (stop_call demo_torch) (stop_new demo_torch 1 0) [Fin 1]) \<and>
   stop_flag demo_torch (foldl (stop_call demo_torch) (stop_new demo_torch 1 0) [Fin 1, Fin 1])"
proof -
  have h1: "early_stopping stalled_config" by (simp add: stalled_fields)
  have h2: "written (train demo_torch bound_globals \<lparr> params = 2, training = False \<rparr>
              (\<lambda>epoch. [1]) [1] 1 stalled_config) =
     Some ([Fin 1, Fin 1], [Fin 1, Fin 1], [Fin 0, Fin 0], [Fin 0, Fin 0])"
    by (simp add: demo_train_bound)
  have e: "nat (epochs stalled_config) = 3" by (simp add: stalled_fields)
  note t = early_stop_ends_training[OF h1 h2]
  from t e have a: "stop_flag demo_torch
      (foldl (stop_call demo_torch) (stop_new demo_torch 1 0) [Fin 1, Fin 1])"
    by (simp add: stalled_fields)
  from t have "0 < (1::nat) \<and> 1 \<le> length [Fin 1, Fin 1] \<and>
       stop_flag demo_torch (foldl (stop_call demo_torch)
          (stop_new demo_torch (patience stalled_config) (min_delta stalled_config))
          (take 1 [Fin 1, Fin 1])) \<longrightarrow> length [Fin 1, Fin 1] = (1::nat)"
    by blast
  then have b: "\<not> stop_flag demo_torch
      (foldl (stop_call demo_torch) (stop_new demo_torch 1 0) [Fin 1])"
    by (simp add: stalled_fields)
  from h1 h2 e a b show ?thesis by blast
qed

text \<open>
  Claim C5 fails on the code by a slip. In the namespace of the module as written,
  the run of the small network ends in \<^verbatim>\<open>NameError\<close> at the first use of
  \<^verbatim>\<open>mse_loss_fit1\<close>, with nothing written and nothing returned; and for every network,
  configuration and data the body of the epoch loop never completes and \<^verbatim>\<open>train\<close>
  never returns a value.
\<close>

theorem train_ends_in_name_error:
  "returned (train demo_torch (training_globals :: (fval, real module) namespace)
               \<lparr> params = 2, training = False \<rparr> (\<lambda>epoch. [1]) [1] 1 stalled_config) =
     Inl (NameError ''mse_loss_fit1'') \<and>
   written (train demo_torch (training_globals :: (fval, real module) namespace)
              \<lparr> params = 2, training = False \<rparr> (\<lambda>epoch. [1]) [1] 1 stalled_config) = None \<and>
   (\<forall>s' brk. epoch_body T training_globals cfg batches valid_dl s \<noteq> Inr (s', brk)) \<and>
   (\<forall>r. returned (train T training_globals m0 train_dl valid_dl x cfg) \<noteq> Inr r)"
proof (intro conjI allI)
  show "returned (train demo_torch (training_globals :: (fval, real module) namespace)
               \<lparr> params = 2, training = False \<rparr> (\<lambda>epoch. [1]) [1] 1 stalled_config) =
     Inl (NameError ''mse_loss_fit1'')"
    by (simp add: demo_train_unbound)
  show "written (train demo_torch (training_globals :: (fval, real module) namespace)
              \<lparr> params = 2, training = False \<rparr> (\<lambda>epoch. [1]) [1] 1 stalled_config) = None"
    by (simp add: demo_train_unbound)
next
  fix s' brk
  show "epoch_body T training_globals cfg batches valid_dl s \<noteq> Inr (s', brk)"
    by (simp add: epoch_body_def training_globals_def Let_def split: prod.splits sum.splits)
next
  fix r
  show "returned (train T training_globals m0 train_dl valid_dl x cfg) \<noteq> Inr r"
    by (simp add: train_def training_globals_def Let_def split: option.splits sum.splits)
qed


section \<open>Assignments to the configuration object\<close>

lemma process_config:
  "snd (process w data_path cfg) =
     (case datasets w data_path of
        None \<Rightarrow> cfg
      | Some df \<Rightarrow> cfg\<lparr>cleared_col_names := Some (get_columns df)\<rparr>)"
  by (simp add: process_def data_loader_def Let_def split: option.splits sum.splits prod.splits)

lemma compress_config:
  "snd (compress w model_path input_path' cfg) =
     (case datasets w input_path' of
        None \<Rightarrow> cfg
      | Some df \<Rightarrow> cfg\<lparr>cleared_col_names := Some (get_columns df)\<rparr>)"
  by (simp add: compress_def data_loader_def Let_def split: option.splits sum.splits)

lemma decompress_config: "snd (decompress w model_path input_path' cfg) = cfg"
  by (simp add: decompress_def Let_def split: option.splits sum.splits list.splits)

text \<open>
  Claim C8, amended. \<^verbatim>\<open>process\<close> and \<^verbatim>\<open>compress\<close> leave the configuration
  object untouched when the dataset cannot be loaded, and otherwise set its
  \<^verbatim>\<open>cleared_col_names\<close> to the column list of the loaded dataset and change no other
  field; \<^verbatim>\<open>decompress\<close> and \<^verbatim>\<open>train\<close> leave the object as it is.
\<close>

theorem config_gains_column_names:
  "snd (process w data_path cfg) =
     (case datasets w data_path of
        None \<Rightarrow> cfg
      | Some df \<Rightarrow> cfg\<lparr>cleared_col_names := Some (get_columns df)\<rparr>) \<and>
   snd (compress w model_path input_path' cfg) =
     (case datasets w input_path' of
        None \<Rightarrow> cfg
      | Some df \<Rightarrow> cfg\<lparr>cleared_col_names := Some (get_columns df)\<rparr>) \<and>
   snd (decompress w model_path latent_path cfg) = cfg \<and>
   snd (helper_train T g m0 train_dl valid_dl x cfg) = cfg"
proof (intro conjI)
  show "snd (process w data_path cfg) =
     (case datasets w data_path of
        None \<Rightarrow> cfg
      | Some df \<Rightarrow> cfg\<lparr>cleared_col_names := Some (get_columns df)\<rparr>)"
    by (rule process_config)
  show "snd (compress w model_path input_path' cfg) =
     (case datasets w input_path' of
        None \<Rightarrow> cfg
      | Some df \<Rightarrow> cfg\<lparr>cleared_col_names := Some (get_columns df)\<rparr>)"
    by (rule compress_config)
  show "snd (decompress w model_path latent_path cfg) = cfg"
    by (rule decompress_config)
  show "snd (helper_train T g m0 train_dl valid_dl x cfg) = cfg"
    by (simp add: helper_train_def)
qed

text \<open>
  Claim C8 as stated fails: the default configuration has no
  \<^verbatim>\<open>cleared_col_names\<close>, and after \<^verbatim>\<open>process\<close> or \<^verbatim>\<open>compress\<close> the same
  object carries the column names of the dataset.
\<close>

theorem process_assigns_to_config:
  "cleared_col_names default_config = None \<and>
   cleared_col_names (snd (process demo_world ''derive.pickle'' default_config)) =
     Some [''pt'', ''eta''] \<and>
   snd (process demo_world ''derive.pickle'' default_config) \<noteq> default_config \<and>
   snd (compress demo_world ''model.pt'' ''big.pickle'' default_config) \<noteq> default_config"
proof -
  have n: "cleared_col_names default_config = None" by (simp add: default_config_def)
  have p: "cleared_col_names (snd (process demo_world ''derive.pickle'' default_config)) =
     Some [''pt'', ''eta'']"
    by (simp add: process_demo)
  have c: "cleared_col_names (snd (compress demo_world ''model.pt'' ''big.pickle'' default_config)) =
     Some [''pt'', ''eta'']"
    by (simp add: compress_demo)
  from n p c show ?thesis by auto
qed

text \<open>
  Claim C8, amended, on the small world.
\<close>

theorem config_gains_column_names_witness:
  "snd (process demo_world ''derive.pickle'' default_config) =
     default_config\<lparr>cleared_col_names := Some [''pt'', ''eta'']\<rparr> \<and>
   snd (compress demo_world ''model.pt'' ''big.pickle'' default_config) =
     default_config\<lparr>cleared_col_names := Some [''pt'', ''eta'']\<rparr> \<and>
   snd (process demo_world ''missing.pickle'' default_config) = default_config \<and>
   snd (decompress demo_world ''model.pt'' ''compressed.pickle'' default_config) = default_config \<and>
   snd (helper_train demo_torch bound_globals \<lparr> params = 2, training = False \<rparr> (\<lambda>epoch. [1]) [1] 1
          stalled_config) = stalled_config"
proof -
  have d: "datasets demo_world ''derive.pickle'' = Some derive_frame"
    and b: "datasets demo_world ''big.pickle'' = Some big_frame"
    and m: "datasets demo_world ''missing.pickle'' = None"
    by (simp_all add: demo_world_def)
  have c: "get_columns derive_frame = [''pt'', ''eta'']" "get_columns big_frame = [''pt'', ''eta'']"
    by (simp_all add: get_columns_def derive_frame_def big_frame_def)
  from config_gains_column_names[of demo_world "''derive.pickle''" default_config "''model.pt''"
      "''big.pickle''" "''compressed.pickle''" demo_torch bound_globals
      "\<lparr> params = 2, training = False \<rparr>" "\<lambda>epoch. [1]" "[1]" 1]
  have 1: "snd (process demo_world ''derive.pickle'' default_config) =
     default_config\<lparr>cleared_col_names := Some [''pt'', ''eta'']\<rparr> \<and>
   snd (compress demo_world ''model.pt'' ''big.pickle'' default_config) =
     default_config\<lparr>cleared_col_names := Some [''pt'', ''eta'']\<rparr> \<and>
   snd (decompress demo_world ''model.pt'' ''compressed.pickle'' default_config) = default_config"
    by (simp add: d b c)
  from config_gains_column_names[of demo_world "''missing.pickle''" default_config "''model.pt''"
      "''big.pickle''" "''compressed.pickle''" demo_torch bound_globals
      "\<lparr> params = 2, training = False \<rparr>" "\<lambda>epoch. [1]" "[1]" 1]
  have 2: "snd (process demo_world ''missing.pickle'' default_config) = default_config"
    by (simp add: m)
  from config_gains_column_names[of demo_world "''missing.pickle''" stalled_config "''model.pt''"
      "''big.pickle''" "''compressed.pickle''" demo_torch bound_globals
      "\<lparr> params = 2, training = False \<rparr>" "\<lambda>epoch. [1]" "[1]" 1]
  have 3: "snd (helper_train demo_torch bound_globals \<lparr> params = 2, training = False \<rparr>
             (\<lambda>epoch. [1]) [1] 1 stalled_config) = stalled_config"
    by simp
  from 1 2 3 show ?thesis by simp
qed

end
